theory Spec2Isabelle
  imports Main "HOL-Library.Word"
begin

unbundle bit_operations_syntax

section \<open>Go values: bytes, strings, formatting\<close>

text \<open>
  A Go \<open>[]byte\<close> is a list of 8-bit words, a Go \<open>string\<close> a list of characters
  (bytes), \<open>int64\<close> a 64-bit word read with \<open>sint\<close>. Go's \<open>int\<close> has 64 bits in this
  build (\<open>GOARCH=wasm\<close>). Buffer lengths (up to 16 MiB) and the counter of parts per request
  (up to 28) are \<open>nat\<close> and \<open>int\<close>; a part number is an \<open>int\<close> too, and where the code adds
  1 to a part number that came from the object store or from a checkpoint the sum goes
  through \<open>wrap_int\<close>, which wraps as the machine addition does.
\<close>

type_synonym byte = "8 word"
type_synonym u32 = "32 word"
type_synonym int64 = "64 word"

definition wrap_int :: "int \<Rightarrow> int" where
  \<comment> \<open>the value of a Go \<open>int\<close> expression: the mathematical result reduced to 64 bits, signed\<close>
  "wrap_int i = sint (word_of_int i :: 64 word)"

definition bytes_of :: "string \<Rightarrow> byte list" where
  \<comment> \<open>the conversion \<open>[]byte(s)\<close>\<close>
  "bytes_of s = map of_char s"

definition HasPrefix :: "string \<Rightarrow> string \<Rightarrow> bool" where
  \<comment> \<open>\<open>strings.HasPrefix(s, prefix)\<close>\<close>
  "HasPrefix s p = (take (length p) s = p)"

definition TrimSuffix :: "string \<Rightarrow> string \<Rightarrow> string" where
  \<comment> \<open>\<open>strings.TrimSuffix(s, suffix)\<close>\<close>
  "TrimSuffix s suf =
     (if length suf \<le> length s \<and> drop (length s - length suf) s = suf
      then take (length s - length suf) s else s)"

definition flatten_slashes :: "string \<Rightarrow> string" where
  \<comment> \<open>\<open>strings.ReplaceAll(s, "/", "_")\<close>\<close>
  "flatten_slashes s = map (\<lambda>c. if c = CHR ''/'' then CHR ''_'' else c) s"

definition slice :: "string \<Rightarrow> nat \<Rightarrow> nat \<Rightarrow> string option" where
  \<comment> \<open>the slice expression \<open>s[lo:hi]\<close>; \<open>None\<close> is the run-time panic
      "slice bounds out of range"\<close>
  "slice s lo hi = (if lo \<le> hi \<and> hi \<le> length s then Some (take (hi - lo) (drop lo s)) else None)"

definition digit_char :: "nat \<Rightarrow> char" where
  "digit_char n = (''0123456789'' ! (n mod 10))"

fun show_nat :: "nat \<Rightarrow> string" where
  "show_nat n = (if n < 10 then [digit_char n] else show_nat (n div 10) @ [digit_char (n mod 10)])"

definition show_int :: "int \<Rightarrow> string" where
  \<comment> \<open>\<open>fmt.Sprintf("%d", n)\<close>\<close>
  "show_int i = (if i < 0 then CHR ''-'' # show_nat (nat (- i)) else show_nat (nat i))"

definition hexdigit :: "nat \<Rightarrow> char" where
  "hexdigit n = (''0123456789abcdef'' ! (n mod 16))"

definition EncodeToString :: "byte list \<Rightarrow> string" where
  \<comment> \<open>\<open>hex.EncodeToString\<close>: two lowercase hex digits per byte\<close>
  "EncodeToString bs = concat (map (\<lambda>b. [hexdigit (unat b div 16), hexdigit (unat b mod 16)]) bs)"

section \<open>SHA-256 and HMAC-SHA256 (Go's crypto/sha256 and crypto/hmac)\<close>

text \<open>
  The repository calls the standard library for both. They are written out here after
  FIPS 180-4 and RFC 2104, so that the signer below is a closed, executable function.
\<close>

definition K256 :: "u32 list" where
  \<comment> \<open>the 64 round constants (the fractional parts of the cube roots of the first 64
      primes), written in decimal\<close>
  "K256 = [
    1116352408, 1899447441, 3049323471, 3921009573,
    961987163, 1508970993, 2453635748, 2870763221,
    3624381080, 310598401, 607225278, 1426881987,
    1925078388, 2162078206, 2614888103, 3248222580,
    3835390401, 4022224774, 264347078, 604807628,
    770255983, 1249150122, 1555081692, 1996064986,
    2554220882, 2821834349, 2952996808, 3210313671,
    3336571891, 3584528711, 113926993, 338241895,
    666307205, 773529912, 1294757372, 1396182291,
    1695183700, 1986661051, 2177026350, 2456956037,
    2730485921, 2820302411, 3259730800, 3345764771,
    3516065817, 3600352804, 4094571909, 275423344,
    430227734, 506948616, 659060556, 883997877,
    958139571, 1322822218, 1537002063, 1747873779,
    1955562222, 2024104815, 2227730452, 2361852424,
    2428436474, 2756734187, 3204031479, 3329325298]"

definition rotr :: "nat \<Rightarrow> u32 \<Rightarrow> u32" where
  "rotr n x = drop_bit n x OR push_bit (32 - n) x"

definition Ch :: "u32 \<Rightarrow> u32 \<Rightarrow> u32 \<Rightarrow> u32" where
  "Ch x y z = (x AND y) XOR (NOT x AND z)"

definition Maj :: "u32 \<Rightarrow> u32 \<Rightarrow> u32 \<Rightarrow> u32" where
  "Maj x y z = (x AND y) XOR (x AND z) XOR (y AND z)"

definition bsig0 :: "u32 \<Rightarrow> u32" where
  "bsig0 x = rotr 2 x XOR rotr 13 x XOR rotr 22 x"

definition bsig1 :: "u32 \<Rightarrow> u32" where
  "bsig1 x = rotr 6 x XOR rotr 11 x XOR rotr 25 x"

definition ssig0 :: "u32 \<Rightarrow> u32" where
  "ssig0 x = rotr 7 x XOR rotr 18 x XOR drop_bit 3 x"

definition ssig1 :: "u32 \<Rightarrow> u32" where
  "ssig1 x = rotr 17 x XOR rotr 19 x XOR drop_bit 10 x"

definition be64 :: "64 word \<Rightarrow> byte list" where
  "be64 x = [ucast (drop_bit 56 x), ucast (drop_bit 48 x), ucast (drop_bit 40 x), ucast (drop_bit 32 x),
             ucast (drop_bit 24 x), ucast (drop_bit 16 x), ucast (drop_bit 8 x), ucast x]"

definition be32 :: "u32 \<Rightarrow> byte list" where
  "be32 x = [ucast (drop_bit 24 x), ucast (drop_bit 16 x), ucast (drop_bit 8 x), ucast x]"

definition sha_pad :: "byte list \<Rightarrow> byte list" where
  "sha_pad m = m @ [0x80] @ replicate ((119 - length m mod 64) mod 64) 0 @ be64 (8 * of_nat (length m))"

fun words_of :: "byte list \<Rightarrow> u32 list" where
  "words_of (a # b # c # d # rest) =
     (push_bit 24 (ucast a) OR push_bit 16 (ucast b) OR push_bit 8 (ucast c) OR ucast d) # words_of rest"
| "words_of _ = []"

fun schedule :: "nat \<Rightarrow> u32 list \<Rightarrow> u32 list" where
  "schedule 0 ws = ws"
| "schedule (Suc n) ws =
     (let t = length ws
      in schedule n (ws @ [ssig1 (ws ! (t - 2)) + ws ! (t - 7) + ssig0 (ws ! (t - 15)) + ws ! (t - 16)]))"

type_synonym sha_state = "u32 \<times> u32 \<times> u32 \<times> u32 \<times> u32 \<times> u32 \<times> u32 \<times> u32"

fun sha_round :: "u32 \<times> u32 \<Rightarrow> sha_state \<Rightarrow> sha_state" where
  "sha_round (k, w) (a, b, c, d, e, f, g, h) =
     (let t1 = h + bsig1 e + Ch e f g + k + w;
          t2 = bsig0 a + Maj a b c
      in (t1 + t2, a, b, c, d + t1, e, f, g))"

fun sha_add :: "sha_state \<Rightarrow> sha_state \<Rightarrow> sha_state" where
  "sha_add (a, b, c, d, e, f, g, h) (a', b', c', d', e', f', g', h') =
     (a + a', b + b', c + c', d + d', e + e', f + f', g + g', h + h')"

definition sha_block :: "byte list \<Rightarrow> sha_state \<Rightarrow> sha_state" where
  "sha_block blk s = sha_add s (fold sha_round (zip K256 (schedule 48 (words_of blk))) s)"

fun sha_blocks :: "nat \<Rightarrow> byte list \<Rightarrow> sha_state \<Rightarrow> sha_state" where
  "sha_blocks 0 bs s = s"
| "sha_blocks (Suc n) bs s = sha_blocks n (drop 64 bs) (sha_block (take 64 bs) s)"

definition sha_init :: sha_state where
  \<comment> \<open>the initial hash value, in decimal\<close>
  "sha_init = (1779033703, 3144134277, 1013904242, 2773480762,
               1359893119, 2600822924, 528734635, 1541459225)"

fun sha_out :: "sha_state \<Rightarrow> byte list" where
  "sha_out (a, b, c, d, e, f, g, h) =
     be32 a @ be32 b @ be32 c @ be32 d @ be32 e @ be32 f @ be32 g @ be32 h"

definition Sum256 :: "byte list \<Rightarrow> byte list" where
  \<comment> \<open>\<open>sha256.Sum256\<close>\<close>
  "Sum256 m = (let p = sha_pad m in sha_out (sha_blocks (length p div 64) p sha_init))"

definition hmac_sha256 :: "byte list \<Rightarrow> byte list \<Rightarrow> byte list" where
  \<comment> \<open>\<open>hmac.New(sha256.New, key)\<close>, \<open>Write(data)\<close>, \<open>Sum(nil)\<close>\<close>
  "hmac_sha256 key data =
     (let k0 = (if length key > 64 then Sum256 key else key);
          k = k0 @ replicate (64 - length k0) 0
      in Sum256 (map (\<lambda>b. b XOR 0x5c) k @ Sum256 (map (\<lambda>b. b XOR 0x36) k @ data)))"

definition hmacSHA256 :: "byte list \<Rightarrow> byte list \<Rightarrow> byte list" where
  \<comment> \<open>s3auth.go, \<open>hmacSHA256\<close>\<close>
  "hmacSHA256 key data = hmac_sha256 key data"

definition sha256Hex :: "byte list \<Rightarrow> string" where
  \<comment> \<open>s3auth.go, \<open>sha256Hex\<close>\<close>
  "sha256Hex data = EncodeToString (Sum256 data)"

section \<open>The SigV4 signer (s3auth.go, multipart.go)\<close>

text \<open>
  The constants \<open>FastlyOSHost\<close>, \<open>FastlyOSRegion\<close> and \<open>S3Bucket\<close> are placeholders
  in the source that the deployer fills in, so they are fields of the deployment.
  \<open>credentials\<close> is what \<open>loadCredentials\<close> returns (\<open>None\<close> for its error),
  \<open>now_date\<close>, \<open>now_datetime\<close> and \<open>now_rfc3339\<close> are the formatted readings of
  \<open>time.Now().UTC()\<close>. \<open>fsthttp.NewRequest\<close> is taken to succeed.
\<close>

record deployment =
  FastlyOSHost :: string
  FastlyOSRegion :: string
  S3Bucket :: string
  credentials :: "(string \<times> string) option"
  now_date :: string
  now_datetime :: string
  now_rfc3339 :: string

record fsthttp_Request =
  Method :: string
  URL :: string
  Header :: "(string \<times> string) list"

datatype sign_error = CredentialsError

definition S3Service :: string where
  "S3Service = ''s3''"

definition nl :: string where
  \<comment> \<open>the line feed of the format strings\<close>
  "nl = [CHR 0x0A]"

definition calculateSignature :: "deployment \<Rightarrow> string \<Rightarrow> string \<Rightarrow> string \<Rightarrow> string" where
  "calculateSignature d secretKey date stringToSign =
     (let kSecret = bytes_of (''AWS4'' @ secretKey);
          kDate = hmacSHA256 kSecret (bytes_of date);
          kRegion = hmacSHA256 kDate (bytes_of (FastlyOSRegion d));
          kService = hmacSHA256 kRegion (bytes_of S3Service);
          kSigning = hmacSHA256 kService (bytes_of ''aws4_request'');
          signature = hmacSHA256 kSigning (bytes_of stringToSign)
      in EncodeToString signature)"

definition object_uri :: "deployment \<Rightarrow> string \<Rightarrow> string" where
  \<comment> \<open>\<open>fmt.Sprintf("/%s/%s", S3Bucket, key)\<close>\<close>
  "object_uri d key = ''/'' @ S3Bucket d @ ''/'' @ key"

definition scope_of :: "deployment \<Rightarrow> string" where
  \<comment> \<open>\<open>fmt.Sprintf("%s/%s/%s/aws4_request", date, FastlyOSRegion, S3Service)\<close>\<close>
  "scope_of d = now_date d @ ''/'' @ FastlyOSRegion d @ ''/'' @ S3Service @ ''/aws4_request''"

definition stringToSign_of :: "deployment \<Rightarrow> string \<Rightarrow> string" where
  \<comment> \<open>\<open>canonicalHash\<close> and \<open>stringToSign\<close> of every signer\<close>
  "stringToSign_of d canonicalRequest =
     ''AWS4-HMAC-SHA256'' @ nl @ now_datetime d @ nl @ scope_of d @ nl
       @ sha256Hex (bytes_of canonicalRequest)"

definition authHeader_of :: "deployment \<Rightarrow> string \<Rightarrow> string \<Rightarrow> string \<Rightarrow> string \<Rightarrow> string" where
  "authHeader_of d accessKey secretKey signedHeaders canonicalRequest =
     ''AWS4-HMAC-SHA256 Credential='' @ accessKey @ ''/'' @ scope_of d
       @ '', SignedHeaders='' @ signedHeaders
       @ '', Signature='' @ calculateSignature d secretKey (now_date d) (stringToSign_of d canonicalRequest)"

subsection \<open>\<open>signRequest\<close> and its wrappers\<close>

definition signRequest_payloadHash :: "string \<Rightarrow> string" where
  "signRequest_payloadHash contentType =
     (if contentType \<noteq> [] then ''UNSIGNED-PAYLOAD'' else sha256Hex [])"

definition signRequest_canonicalHeaders :: "deployment \<Rightarrow> string \<Rightarrow> string" where
  "signRequest_canonicalHeaders d contentType =
     (if contentType \<noteq> []
      then ''content-type:'' @ contentType @ nl @ ''host:'' @ FastlyOSHost d @ nl
             @ ''x-amz-content-sha256:'' @ signRequest_payloadHash contentType @ nl
             @ ''x-amz-date:'' @ now_datetime d @ nl
      else ''host:'' @ FastlyOSHost d @ nl
             @ ''x-amz-content-sha256:'' @ signRequest_payloadHash contentType @ nl
             @ ''x-amz-date:'' @ now_datetime d @ nl)"

definition signRequest_signedHeaders :: "string \<Rightarrow> string" where
  "signRequest_signedHeaders contentType =
     (if contentType \<noteq> [] then ''content-type;host;x-amz-content-sha256;x-amz-date''
      else ''host;x-amz-content-sha256;x-amz-date'')"

definition signRequest_canonicalRequest :: "deployment \<Rightarrow> string \<Rightarrow> string \<Rightarrow> string \<Rightarrow> string" where
  "signRequest_canonicalRequest d method key contentType =
     method @ nl @ object_uri d key @ nl @ nl @ signRequest_canonicalHeaders d contentType @ nl
       @ signRequest_signedHeaders contentType @ nl @ signRequest_payloadHash contentType"

definition signRequest :: "deployment \<Rightarrow> string \<Rightarrow> string \<Rightarrow> string \<Rightarrow> sign_error + fsthttp_Request" where
  "signRequest d method key contentType =
     (case credentials d of
        None \<Rightarrow> Inl CredentialsError
      | Some (accessKey, secretKey) \<Rightarrow>
          Inr \<lparr> Method = method,
                URL = ''https://'' @ FastlyOSHost d @ object_uri d key,
                Header =
                  [(''Host'', FastlyOSHost d),
                   (''x-amz-date'', now_datetime d),
                   (''x-amz-content-sha256'', signRequest_payloadHash contentType),
                   (''Authorization'',
                      authHeader_of d accessKey secretKey (signRequest_signedHeaders contentType)
                        (signRequest_canonicalRequest d method key contentType))]
                  @ (if contentType \<noteq> [] then [(''Content-Type'', contentType)] else []) \<rparr>)"

definition SignGetRequest :: "deployment \<Rightarrow> string \<Rightarrow> sign_error + fsthttp_Request" where
  "SignGetRequest d key = signRequest d ''GET'' key []"

definition SignPutRequest :: "deployment \<Rightarrow> string \<Rightarrow> string \<Rightarrow> sign_error + fsthttp_Request" where
  "SignPutRequest d key contentType = signRequest d ''PUT'' key contentType"

definition SignHeadRequest :: "deployment \<Rightarrow> string \<Rightarrow> sign_error + fsthttp_Request" where
  "SignHeadRequest d key = signRequest d ''HEAD'' key []"

definition SignDeleteRequest :: "deployment \<Rightarrow> string \<Rightarrow> sign_error + fsthttp_Request" where
  "SignDeleteRequest d key = signRequest d ''DELETE'' key []"

subsection \<open>\<open>SignCopyRequest\<close>\<close>

definition SignCopyRequest_payloadHash :: string where
  \<comment> \<open>\<open>payloadHash := sha256Hex([]byte{})\<close>, under the comment "For COPY, payload is empty"\<close>
  "SignCopyRequest_payloadHash = sha256Hex []"

definition SignCopyRequest_canonicalRequest :: "deployment \<Rightarrow> string \<Rightarrow> string \<Rightarrow> string" where
  "SignCopyRequest_canonicalRequest d destKey sourceKey =
     ''PUT'' @ nl @ object_uri d destKey @ nl @ nl
       @ (''host:'' @ FastlyOSHost d @ nl
            @ ''x-amz-content-sha256:'' @ SignCopyRequest_payloadHash @ nl
            @ ''x-amz-copy-source:'' @ object_uri d sourceKey @ nl
            @ ''x-amz-date:'' @ now_datetime d @ nl) @ nl
       @ ''host;x-amz-content-sha256;x-amz-copy-source;x-amz-date'' @ nl
       @ SignCopyRequest_payloadHash"

definition SignCopyRequest :: "deployment \<Rightarrow> string \<Rightarrow> string \<Rightarrow> sign_error + fsthttp_Request" where
  "SignCopyRequest d destKey sourceKey =
     (case credentials d of
        None \<Rightarrow> Inl CredentialsError
      | Some (accessKey, secretKey) \<Rightarrow>
          Inr \<lparr> Method = ''PUT'',
                URL = ''https://'' @ FastlyOSHost d @ object_uri d destKey,
                Header =
                  [(''Host'', FastlyOSHost d),
                   (''x-amz-date'', now_datetime d),
                   (''x-amz-content-sha256'', SignCopyRequest_payloadHash),
                   (''x-amz-copy-source'', object_uri d sourceKey),
                   (''Authorization'',
                      authHeader_of d accessKey secretKey
                        ''host;x-amz-content-sha256;x-amz-copy-source;x-amz-date''
                        (SignCopyRequest_canonicalRequest d destKey sourceKey))] \<rparr>)"

subsection \<open>The multipart signers\<close>

definition SignInitiateMultipartUpload :: "deployment \<Rightarrow> string \<Rightarrow> sign_error + fsthttp_Request" where
  "SignInitiateMultipartUpload d key =
     (case credentials d of
        None \<Rightarrow> Inl CredentialsError
      | Some (accessKey, secretKey) \<Rightarrow>
          (let payloadHash = sha256Hex [];
               signedHeaders = ''host;x-amz-content-sha256;x-amz-date'';
               canonicalRequest =
                 ''POST'' @ nl @ object_uri d key @ nl @ ''uploads='' @ nl
                   @ (''host:'' @ FastlyOSHost d @ nl @ ''x-amz-content-sha256:'' @ payloadHash @ nl
                        @ ''x-amz-date:'' @ now_datetime d @ nl) @ nl
                   @ signedHeaders @ nl @ payloadHash
           in Inr \<lparr> Method = ''POST'',
                     URL = ''https://'' @ FastlyOSHost d @ object_uri d key @ ''?uploads'',
                     Header =
                       [(''Host'', FastlyOSHost d),
                        (''x-amz-date'', now_datetime d),
                        (''x-amz-content-sha256'', payloadHash),
                        (''Authorization'',
                           authHeader_of d accessKey secretKey signedHeaders canonicalRequest)] \<rparr>))"

definition SignUploadPart_payloadHash :: string where
  "SignUploadPart_payloadHash = ''UNSIGNED-PAYLOAD''"

definition SignUploadPart_canonicalRequest ::
    "deployment \<Rightarrow> string \<Rightarrow> string \<Rightarrow> int \<Rightarrow> int64 \<Rightarrow> string" where
  "SignUploadPart_canonicalRequest d key uploadId partNumber contentLength =
     ''PUT'' @ nl @ object_uri d key @ nl
       @ (''partNumber='' @ show_int partNumber @ ''&uploadId='' @ uploadId) @ nl
       @ (''content-length:'' @ show_int (sint contentLength) @ nl
            @ ''host:'' @ FastlyOSHost d @ nl
            @ ''x-amz-content-sha256:'' @ SignUploadPart_payloadHash @ nl
            @ ''x-amz-date:'' @ now_datetime d @ nl) @ nl
       @ ''content-length;host;x-amz-content-sha256;x-amz-date'' @ nl
       @ SignUploadPart_payloadHash"

definition SignUploadPart ::
    "deployment \<Rightarrow> string \<Rightarrow> string \<Rightarrow> int \<Rightarrow> int64 \<Rightarrow> sign_error + fsthttp_Request" where
  "SignUploadPart d key uploadId partNumber contentLength =
     (case credentials d of
        None \<Rightarrow> Inl CredentialsError
      | Some (accessKey, secretKey) \<Rightarrow>
          Inr \<lparr> Method = ''PUT'',
                URL = ''https://'' @ FastlyOSHost d @ object_uri d key
                        @ ''?partNumber='' @ show_int partNumber @ ''&uploadId='' @ uploadId,
                Header =
                  [(''Host'', FastlyOSHost d),
                   (''x-amz-date'', now_datetime d),
                   (''x-amz-content-sha256'', SignUploadPart_payloadHash),
                   (''Content-Length'', show_int (sint contentLength)),
                   (''Authorization'',
                      authHeader_of d accessKey secretKey
                        ''content-length;host;x-amz-content-sha256;x-amz-date''
                        (SignUploadPart_canonicalRequest d key uploadId partNumber contentLength))] \<rparr>)"

definition SignCompleteMultipartUpload ::
    "deployment \<Rightarrow> string \<Rightarrow> string \<Rightarrow> byte list \<Rightarrow> sign_error + fsthttp_Request" where
  "SignCompleteMultipartUpload d key uploadId body =
     (case credentials d of
        None \<Rightarrow> Inl CredentialsError
      | Some (accessKey, secretKey) \<Rightarrow>
          (let payloadHash = sha256Hex body;
               signedHeaders = ''content-length;content-type;host;x-amz-content-sha256;x-amz-date'';
               canonicalRequest =
                 ''POST'' @ nl @ object_uri d key @ nl @ (''uploadId='' @ uploadId) @ nl
                   @ (''content-length:'' @ show_int (int (length body)) @ nl
                        @ ''content-type:application/xml'' @ nl
                        @ ''host:'' @ FastlyOSHost d @ nl
                        @ ''x-amz-content-sha256:'' @ payloadHash @ nl
                        @ ''x-amz-date:'' @ now_datetime d @ nl) @ nl
                   @ signedHeaders @ nl @ payloadHash
           in Inr \<lparr> Method = ''POST'',
                     URL = ''https://'' @ FastlyOSHost d @ object_uri d key @ ''?uploadId='' @ uploadId,
                     Header =
                       [(''Host'', FastlyOSHost d),
                        (''x-amz-date'', now_datetime d),
                        (''x-amz-content-sha256'', payloadHash),
                        (''Content-Type'', ''application/xml''),
                        (''Content-Length'', show_int (int (length body))),
                        (''Authorization'',
                           authHeader_of d accessKey secretKey signedHeaders canonicalRequest)] \<rparr>))"

definition sign_with_uploadId ::
    "deployment \<Rightarrow> string \<Rightarrow> string \<Rightarrow> string \<Rightarrow> sign_error + fsthttp_Request" where
  \<comment> \<open>the body that \<open>SignListParts\<close> (GET) and \<open>SignAbortMultipartUpload\<close> (DELETE) share
      word for word but for the method\<close>
  "sign_with_uploadId d method key uploadId =
     (case credentials d of
        None \<Rightarrow> Inl CredentialsError
      | Some (accessKey, secretKey) \<Rightarrow>
          (let payloadHash = sha256Hex [];
               signedHeaders = ''host;x-amz-content-sha256;x-amz-date'';
               canonicalRequest =
                 method @ nl @ object_uri d key @ nl @ (''uploadId='' @ uploadId) @ nl
                   @ (''host:'' @ FastlyOSHost d @ nl @ ''x-amz-content-sha256:'' @ payloadHash @ nl
                        @ ''x-amz-date:'' @ now_datetime d @ nl) @ nl
                   @ signedHeaders @ nl @ payloadHash
           in Inr \<lparr> Method = method,
                     URL = ''https://'' @ FastlyOSHost d @ object_uri d key @ ''?uploadId='' @ uploadId,
                     Header =
                       [(''Host'', FastlyOSHost d),
                        (''x-amz-date'', now_datetime d),
                        (''x-amz-content-sha256'', payloadHash),
                        (''Authorization'',
                           authHeader_of d accessKey secretKey signedHeaders canonicalRequest)] \<rparr>))"

definition SignListParts :: "deployment \<Rightarrow> string \<Rightarrow> string \<Rightarrow> sign_error + fsthttp_Request" where
  "SignListParts d key uploadId = sign_with_uploadId d ''GET'' key uploadId"

definition SignAbortMultipartUpload :: "deployment \<Rightarrow> string \<Rightarrow> string \<Rightarrow> sign_error + fsthttp_Request" where
  "SignAbortMultipartUpload d key uploadId = sign_with_uploadId d ''DELETE'' key uploadId"

definition SignPresignedPutURL_queryParams :: "deployment \<Rightarrow> string \<Rightarrow> int \<Rightarrow> string" where
  "SignPresignedPutURL_queryParams d accessKey expiresInSeconds =
     ''X-Amz-Algorithm=AWS4-HMAC-SHA256&X-Amz-Credential='' @ accessKey @ ''%2F'' @ now_date d
       @ ''%2F'' @ FastlyOSRegion d @ ''%2Fs3%2Faws4_request&X-Amz-Date='' @ now_datetime d
       @ ''&X-Amz-Expires='' @ show_int expiresInSeconds @ ''&X-Amz-SignedHeaders=host''"

definition SignPresignedPutURL_canonicalRequest :: "deployment \<Rightarrow> string \<Rightarrow> string \<Rightarrow> int \<Rightarrow> string" where
  "SignPresignedPutURL_canonicalRequest d accessKey key expiresInSeconds =
     ''PUT'' @ nl @ object_uri d key @ nl
       @ SignPresignedPutURL_queryParams d accessKey expiresInSeconds @ nl
       @ (''host:'' @ FastlyOSHost d @ nl) @ nl
       @ ''host'' @ nl
       @ ''UNSIGNED-PAYLOAD''"

definition SignPresignedPutURL :: "deployment \<Rightarrow> string \<Rightarrow> int \<Rightarrow> sign_error + string" where
  "SignPresignedPutURL d key expiresInSeconds =
     (case credentials d of
        None \<Rightarrow> Inl CredentialsError
      | Some (accessKey, secretKey) \<Rightarrow>
          Inr (''https://'' @ FastlyOSHost d @ object_uri d key @ ''?''
                @ SignPresignedPutURL_queryParams d accessKey expiresInSeconds
                @ ''&X-Amz-Signature=''
                @ calculateSignature d secretKey (now_date d)
                    (stringToSign_of d (SignPresignedPutURL_canonicalRequest d accessKey key expiresInSeconds))))"

text \<open>The wording of the signing key in the specification, to compare \<open>calculateSignature\<close> with:
  \<open>K = HMAC(HMAC(HMAC(HMAC("AWS4"+secret, date), region), "s3"), "aws4_request")\<close>,
  signature = lowercase hex of \<open>HMAC(K, string-to-sign)\<close>.\<close>

definition spec_signing_key :: "string \<Rightarrow> string \<Rightarrow> string \<Rightarrow> byte list" where
  "spec_signing_key secret date region =
     hmac_sha256 (hmac_sha256 (hmac_sha256 (hmac_sha256 (bytes_of (''AWS4'' @ secret)) (bytes_of date))
        (bytes_of region)) (bytes_of ''s3'')) (bytes_of ''aws4_request'')"

definition spec_signature :: "string \<Rightarrow> string \<Rightarrow> string \<Rightarrow> string \<Rightarrow> string" where
  "spec_signature secret date region stringToSign =
     EncodeToString (hmac_sha256 (spec_signing_key secret date region) (bytes_of stringToSign))"

definition is_lower_hex :: "char \<Rightarrow> bool" where
  "is_lower_hex c = (c \<in> set ''0123456789abcdef'')"

section \<open>Blob keys and digest validation (s3auth.go, security.go)\<close>

definition BlobKey :: "string \<Rightarrow> string option" where
  \<comment> \<open>\<open>None\<close> is the panic of \<open>hash[0:2]\<close> or \<open>hash[2:4]\<close> on a short hash\<close>
  "BlobKey digest =
     (if \<not> HasPrefix digest ''sha256:'' then Some []
      else (let hash = drop 7 digest
            in case slice hash 0 2 of
                 None \<Rightarrow> None
               | Some h02 \<Rightarrow>
                   (case slice hash 2 4 of
                      None \<Rightarrow> None
                    | Some h24 \<Rightarrow> Some (''blobs/sha256/'' @ h02 @ ''/'' @ h24 @ ''/'' @ hash))))"

record OCIError =
  Code :: string
  Message :: string
  Detail :: string
  Status :: int





section \<open>The world of one invocation\<close>

subsection \<open>Records of multipart.go and uploads.go\<close>

record CompletedPart =
  PartNumber :: int
  ETag :: string

record MultipartState =
  S3UploadId :: string
  S3Key :: string
  CompletedParts :: "CompletedPart list"
  NextPartNumber :: int
  BytesUploaded :: int64
  StartedAt :: string
  ContentHash :: string

record ListPartResult =
  lp_PartNumber :: int
  lp_ETag :: string
  lp_Size :: int64

record MultipartUploadResult =
  res_BytesUploaded :: int64
  IsComplete :: bool
  State :: "MultipartState option"
  CompletedKey :: string

record UploadSession =
  UUID :: string
  Repo :: string
  sess_StartedAt :: string
  BytesReceived :: int64
  TempLocation :: string
  ExpiresAt :: string

definition MinPartSize :: nat where
  "MinPartSize = 5 * 1024 * 1024"

definition PartSize :: nat where
  "PartSize = 16 * 1024 * 1024"

definition IdentifyChunkSize :: nat where
  "IdentifyChunkSize = 1 * 1024 * 1024"

definition MaxPartsPerRequest :: int where
  "MaxPartsPerRequest = 28"

subsection \<open>The request body (an \<open>io.Reader\<close>)\<close>

text \<open>
  The body is the bytes still to come and what follows them: a clean end of stream, or a
  transport error (\<open>broken\<close>).
\<close>

datatype io_error = NoError | EOF | ErrUnexpectedEOF | ReadError

record reader =
  pending :: "byte list"
  broken :: bool

definition ReadFull :: "reader \<Rightarrow> nat \<Rightarrow> byte list \<times> io_error \<times> reader" where
  \<comment> \<open>\<open>io.ReadFull(body, buf)\<close> with \<open>len(buf) = n\<close>: the bytes read, the error, the reader after\<close>
  "ReadFull r n =
     (if n \<le> length (pending r) then (take n (pending r), NoError, r\<lparr>pending := drop n (pending r)\<rparr>)
      else if broken r then (pending r, ReadError, r\<lparr>pending := []\<rparr>)
      else if pending r = [] then ([], EOF, r)
      else (pending r, ErrUnexpectedEOF, r\<lparr>pending := []\<rparr>))"

definition Read1 :: "reader \<Rightarrow> nat \<times> io_error \<times> reader" where
  \<comment> \<open>\<open>body.Read(peekBuf)\<close> with a one-byte buffer\<close>
  "Read1 r =
     (if pending r \<noteq> [] then (1, NoError, r\<lparr>pending := tl (pending r)\<rparr>)
      else if broken r then (0, ReadError, r)
      else (0, EOF, r))"

subsection \<open>The object store and the metadata KV store\<close>

text \<open>
  A request to the object store is recorded by what it asks for; what the store answers
  is a parameter of the invocation (\<open>backend\<close>), a function of the requests sent before
  and of the request. \<open>SendError\<close> is the error of \<open>Send\<close> (the request never got an
  answer, as when the platform's cap on backend requests is reached). A response carries
  what the code reads from it: the status, the \<open>ETag\<close> header (empty when absent), and the
  body as \<open>xml.Unmarshal\<close> decodes it (\<open>None\<close> when the body cannot be read or parsed).
\<close>

datatype s3_op =
    Head string
  | Get string
  | Put string "byte list"
  | Delete string
  | Copy string string
  | InitiateMultipartUpload string
  | UploadPart string string int "byte list"
  | ListParts string string
  | CompleteMultipartUpload string string "CompletedPart list"
  | AbortMultipartUpload string string

record s3_response =
  StatusCode :: int
  resp_ETag :: string
  resp_UploadId :: "string option"
  resp_Parts :: "ListPartResult list option"
  resp_Body :: "byte list"

datatype s3_outcome = SendError | Response s3_response

text \<open>
  The metadata KV store holds three tables under the key prefixes \<open>uploads/\<close>,
  \<open>multipart/\<close> and \<open>completed/\<close>. The JSON values are kept decoded; opening the store
  and inserting succeed, a lookup fails exactly when the key is absent.
\<close>

datatype kv_op = KVLookup string | KVInsert string | KVDelete string

record world =
  uploads_kv :: "string \<rightharpoonup> UploadSession"
  multipart_kv :: "string \<rightharpoonup> MultipartState"
  completed_kv :: "string \<rightharpoonup> string"
  kv_log :: "kv_op list"
  s3_log :: "s3_op list"
  req_body :: reader

record env =
  dep :: deployment
  backend :: "s3_op list \<Rightarrow> s3_op \<Rightarrow> s3_outcome"
  Sscanf_d :: "string \<Rightarrow> int64"
  xml_Marshal :: "CompletedPart list \<Rightarrow> byte list"

text \<open>\<open>Sscanf_d header\<close> is the \<open>int64\<close> that \<open>fmt.Sscanf(header, "%d", &v)\<close> leaves in
  \<open>v\<close> (0 when nothing parses), and \<open>xml_Marshal parts\<close> the \<open>CompleteMultipartUpload\<close>
  document that \<open>xml.Marshal\<close> writes for the parts; both are the standard library's and
  are parameters.\<close>

definition Send :: "env \<Rightarrow> world \<Rightarrow> s3_op \<Rightarrow> world \<times> s3_outcome" where
  \<comment> \<open>\<open>req.Send(ctx, ObjectStorage)\<close>\<close>
  "Send e w op = (w\<lparr>s3_log := s3_log w @ [op]\<rparr>, backend e (s3_log w) op)"

definition multipart_key :: "string \<Rightarrow> string" where
  "multipart_key s3Key = ''multipart/'' @ flatten_slashes s3Key"

definition completed_key :: "string \<Rightarrow> string" where
  "completed_key stateKey = ''completed/'' @ flatten_slashes stateKey"

definition LoadMultipartState :: "world \<Rightarrow> string \<Rightarrow> world \<times> MultipartState option" where
  "LoadMultipartState w s3Key =
     (w\<lparr>kv_log := kv_log w @ [KVLookup (multipart_key s3Key)]\<rparr>, multipart_kv w (multipart_key s3Key))"

definition SaveMultipartState :: "world \<Rightarrow> string \<Rightarrow> MultipartState \<Rightarrow> world" where
  "SaveMultipartState w s3Key state =
     w\<lparr>multipart_kv := (multipart_kv w)(multipart_key s3Key \<mapsto> state),
       kv_log := kv_log w @ [KVInsert (multipart_key s3Key)]\<rparr>"

definition DeleteMultipartState :: "world \<Rightarrow> string \<Rightarrow> world" where
  "DeleteMultipartState w s3Key =
     w\<lparr>multipart_kv := (multipart_kv w)(multipart_key s3Key := None),
       kv_log := kv_log w @ [KVDelete (multipart_key s3Key)]\<rparr>"

definition LoadCompletedUpload :: "world \<Rightarrow> string \<Rightarrow> world \<times> string" where
  \<comment> \<open>the empty string when the key is not found\<close>
  "LoadCompletedUpload w stateKey =
     (w\<lparr>kv_log := kv_log w @ [KVLookup (completed_key stateKey)]\<rparr>,
      case completed_kv w (completed_key stateKey) of None \<Rightarrow> [] | Some finalKey \<Rightarrow> finalKey)"

definition SaveCompletedUpload :: "world \<Rightarrow> string \<Rightarrow> string \<Rightarrow> world" where
  "SaveCompletedUpload w stateKey finalKey =
     w\<lparr>completed_kv := (completed_kv w)(completed_key stateKey \<mapsto> finalKey),
       kv_log := kv_log w @ [KVInsert (completed_key stateKey)]\<rparr>"

definition DeleteCompletedUpload :: "world \<Rightarrow> string \<Rightarrow> world" where
  "DeleteCompletedUpload w stateKey =
     w\<lparr>completed_kv := (completed_kv w)(completed_key stateKey := None),
       kv_log := kv_log w @ [KVDelete (completed_key stateKey)]\<rparr>"

section \<open>The ingestion engine: \<open>ResumableMultipartUpload\<close> (multipart.go)\<close>

text \<open>
  The function returns a pair \<open>(result, err)\<close>; both are kept, since one exit returns a
  result together with an error. The errors are named after the exit that builds them.
\<close>

datatype engine_error =
    ReadIdentifyError
  | SignInitiateError
  | InitiateSendError
  | InitiateStatusError int
  | InitiateParseError
  | ReadFirstPartError
  | SignFirstPartError
  | FirstPartSendError
  | FirstPartStatusError int
  | ReadBodyError
  | SignPartError
  | BackendLimitError int
  | PartStatusError int int
  | SignCompleteError
  | CompleteSendError
  | CompleteStatusError int

type_synonym engine_ret = "MultipartUploadResult option \<times> engine_error option"

definition part_etag :: "s3_response \<Rightarrow> byte list \<Rightarrow> string" where
  \<comment> \<open>the \<open>ETag\<close> header, or \<open>fmt.Sprintf("\"%x\"", sha256.Sum256(partData))\<close> when it is empty\<close>
  "part_etag r partData =
     (if resp_ETag r = [] then [CHR 0x22] @ EncodeToString (Sum256 partData) @ [CHR 0x22]
      else resp_ETag r)"

definition check_completed :: "env \<Rightarrow> world \<Rightarrow> string \<Rightarrow> world \<times> string option" where
  \<comment> \<open>lines 531-552: the completed-content early exit. \<open>Some key\<close> is the early exit with
      the verified key; \<open>None\<close> goes on (after deleting a stale record).\<close>
  "check_completed e w stateKey =
     (case LoadCompletedUpload w stateKey of
        (w1, completedKey) \<Rightarrow>
          if completedKey \<noteq> [] then
            (case SignHeadRequest (dep e) completedKey of
               Inl err \<Rightarrow> (DeleteCompletedUpload w1 stateKey, None)
             | Inr headReq \<Rightarrow>
                 (case Send e w1 (Head completedKey) of
                    (w2, SendError) \<Rightarrow> (DeleteCompletedUpload w2 stateKey, None)
                  | (w2, Response headResp) \<Rightarrow>
                      if StatusCode headResp = 200 then (w2, Some completedKey)
                      else (DeleteCompletedUpload w2 stateKey, None)))
          else (w1, None))"

text \<open>
  Lines 554-625, the resume probe. Its outcomes, in the variables of the source:
  \<^item> \<open>FastResume state\<close>: the return of lines 612-624;
  \<^item> \<open>Resume state key uploadId bytesAlreadyUploaded\<close>: \<open>existingState\<close> and \<open>state\<close>
    are both non-nil and the probe did not return;
  \<^item> \<open>StartFresh key\<close>: \<open>existingState == nil || state == nil\<close> holds at line 631. After
    a checkpoint matched, \<open>key\<close> has been overwritten with the checkpoint's key.
\<close>

datatype probe =
    FastResume MultipartState
  | Resume MultipartState string string int64
  | StartFresh string

definition actualBytes_of :: "ListPartResult list \<Rightarrow> int64" where
  \<comment> \<open>\<open>actualBytes += part.Size\<close> over the listed parts\<close>
  "actualBytes_of parts = fold (\<lambda>part actualBytes. actualBytes + lp_Size part) parts 0"

definition state_from_list :: "MultipartState \<Rightarrow> ListPartResult list \<Rightarrow> MultipartState" where
  \<comment> \<open>lines 590-604: the checkpoint rebuilt from the ListParts response\<close>
  "state_from_list state parts =
     state\<lparr> CompletedParts := map (\<lambda>part. \<lparr>PartNumber = lp_PartNumber part, ETag = lp_ETag part\<rparr>) parts,
            BytesUploaded := actualBytes_of parts,
            NextPartNumber := (if parts \<noteq> [] then wrap_int (lp_PartNumber (last parts) + 1)
                               else NextPartNumber state) \<rparr>"

definition resume_probe :: "env \<Rightarrow> world \<Rightarrow> string \<Rightarrow> string \<Rightarrow> string \<Rightarrow> world \<times> probe" where
  "resume_probe e w stateKey contentHash16 key =
     (case LoadMultipartState w stateKey of
        (w1, None) \<Rightarrow> (w1, StartFresh key)
      | (w1, Some existingState) \<Rightarrow>
          if ContentHash existingState = contentHash16 then
            (let uploadId = S3UploadId existingState;
                 key' = S3Key existingState
             in case SignListParts (dep e) key' uploadId of
                  Inl err \<Rightarrow> (w1, StartFresh key')
                | Inr listReq \<Rightarrow>
                    (case Send e w1 (ListParts key' uploadId) of
                       (w2, SendError) \<Rightarrow> (DeleteMultipartState w2 stateKey, StartFresh key')
                     | (w2, Response listResp) \<Rightarrow>
                         if StatusCode listResp \<noteq> 200 then (DeleteMultipartState w2 stateKey, StartFresh key')
                         else (case resp_Parts listResp of
                                 None \<Rightarrow> (w2, StartFresh key')
                               | Some parts \<Rightarrow>
                                   (let state = state_from_list existingState parts;
                                        bytesAlreadyUploaded = actualBytes_of parts
                                    in if 0 <s bytesAlreadyUploaded then (w2, FastResume state)
                                       else (w2, Resume state key' uploadId bytesAlreadyUploaded)))))
          else (w1, StartFresh key))"

definition start_fresh ::
    "env \<Rightarrow> world \<Rightarrow> string \<Rightarrow> byte list \<Rightarrow> string \<Rightarrow> world \<times> (engine_ret + MultipartState \<times> string)" where
  \<comment> \<open>lines 631-719: initiate, then build and upload part 1. \<open>Inl\<close> is a return of the
      function, \<open>Inr (state, uploadId)\<close> goes on to the main loop. \<open>firstPartData\<close> is
      \<open>buf[:firstPartSize]\<close> after \<open>copy(buf, identifyData)\<close> and the read into
      \<open>buf[identifyN:PartSize]\<close>.\<close>
  "start_fresh e w key identifyData contentHash16 =
     (case SignInitiateMultipartUpload (dep e) key of
        Inl err \<Rightarrow> (w, Inl (None, Some SignInitiateError))
      | Inr initReq \<Rightarrow>
          (case Send e w (InitiateMultipartUpload key) of
             (w1, SendError) \<Rightarrow> (w1, Inl (None, Some InitiateSendError))
           | (w1, Response initResp) \<Rightarrow>
               if StatusCode initResp \<noteq> 200 then (w1, Inl (None, Some (InitiateStatusError (StatusCode initResp))))
               else (case resp_UploadId initResp of
                  None \<Rightarrow> (w1, Inl (None, Some InitiateParseError))
                | Some uploadId \<Rightarrow>
                    (let identifyN = length identifyData
                     in case (if identifyN < PartSize then ReadFull (req_body w1) (PartSize - identifyN)
                              else ([], NoError, req_body w1)) of
                          (rest, err, body') \<Rightarrow>
                            (let w2 = w1\<lparr>req_body := body'\<rparr>
                             in if err \<noteq> NoError \<and> err \<noteq> EOF \<and> err \<noteq> ErrUnexpectedEOF
                                then (w2, Inl (None, Some ReadFirstPartError))
                                else (let firstPartData = take PartSize identifyData @ rest
                                      in case SignUploadPart (dep e) key uploadId 1 (of_nat (length firstPartData)) of
                                           Inl err \<Rightarrow> (w2, Inl (None, Some SignFirstPartError))
                                         | Inr partReq \<Rightarrow>
                                             (case Send e w2 (UploadPart key uploadId 1 firstPartData) of
                                                (w3, SendError) \<Rightarrow> (w3, Inl (None, Some FirstPartSendError))
                                              | (w3, Response partResp) \<Rightarrow>
                                                  if StatusCode partResp \<noteq> 200
                                                  then (w3, Inl (None, Some (FirstPartStatusError (StatusCode partResp))))
                                                  else (w3, Inr (\<lparr> S3UploadId = uploadId,
                                                                    S3Key = key,
                                                                    CompletedParts =
                                                                      [\<lparr>PartNumber = 1, ETag = part_etag partResp firstPartData\<rparr>],
                                                                    NextPartNumber = 2,
                                                                    BytesUploaded = of_nat (length firstPartData),
                                                                    StartedAt = now_rfc3339 (dep e),
                                                                    ContentHash = contentHash16 \<rparr>,
                                                                 uploadId)))))))))"

text \<open>One turn of the main loop (lines 731-794): \<open>LoopBreak\<close> is the \<open>break\<close> at end of
  stream, \<open>LoopReturn\<close> a return of the function, \<open>LoopNext\<close> the end of the loop body.\<close>

datatype loop_step =
    LoopBreak world MultipartState
  | LoopReturn world engine_ret
  | LoopNext world MultipartState

definition upload_step ::
    "env \<Rightarrow> string \<Rightarrow> string \<Rightarrow> string \<Rightarrow> world \<Rightarrow> MultipartState \<Rightarrow> int \<Rightarrow> loop_step" where
  "upload_step e stateKey key uploadId w state partsUploadedThisRequest =
     (case ReadFull (req_body w) PartSize of
        (partData, err, body') \<Rightarrow>
          (let w1 = w\<lparr>req_body := body'\<rparr>
           in if err = EOF then LoopBreak w1 state
              else if err \<noteq> NoError \<and> err \<noteq> ErrUnexpectedEOF
              then LoopReturn (SaveMultipartState w1 stateKey state) (None, Some ReadBodyError)
              else (let partSize = (of_nat (length partData) :: int64);
                        partNumber = NextPartNumber state
                    in case SignUploadPart (dep e) key uploadId partNumber partSize of
                         Inl serr \<Rightarrow> LoopReturn (SaveMultipartState w1 stateKey state) (None, Some SignPartError)
                       | Inr partReq \<Rightarrow>
                           (case Send e w1 (UploadPart key uploadId partNumber partData) of
                              (w2, SendError) \<Rightarrow>
                                LoopReturn (SaveMultipartState w2 stateKey state)
                                  (Some \<lparr> res_BytesUploaded = BytesUploaded state,
                                          IsComplete = False,
                                          State = Some state,
                                          CompletedKey = [] \<rparr>,
                                   Some (BackendLimitError partsUploadedThisRequest))
                            | (w2, Response partResp) \<Rightarrow>
                                if StatusCode partResp \<noteq> 200
                                then LoopReturn (SaveMultipartState w2 stateKey state)
                                       (None, Some (PartStatusError partNumber (StatusCode partResp)))
                                else LoopNext w2
                                       (state\<lparr> CompletedParts :=
                                                 CompletedParts state
                                                   @ [\<lparr>PartNumber = partNumber, ETag = part_etag partResp partData\<rparr>],
                                               NextPartNumber := wrap_int (partNumber + 1),
                                               BytesUploaded := BytesUploaded state + partSize \<rparr>)))))"

function upload_loop ::
    "env \<Rightarrow> string \<Rightarrow> string \<Rightarrow> string \<Rightarrow> world \<Rightarrow> MultipartState \<Rightarrow> int
       \<Rightarrow> world \<times> (engine_ret + MultipartState)" where
  "upload_loop e stateKey key uploadId w state partsUploadedThisRequest =
     (if partsUploadedThisRequest < MaxPartsPerRequest then
        (case upload_step e stateKey key uploadId w state partsUploadedThisRequest of
           LoopBreak w' state' \<Rightarrow> (w', Inr state')
         | LoopReturn w' ret \<Rightarrow> (w', Inl ret)
         | LoopNext w' state' \<Rightarrow> upload_loop e stateKey key uploadId w' state' (partsUploadedThisRequest + 1))
      else (w, Inr state))"
  by pat_completeness auto
termination
  by (relation "measure (\<lambda>(e, stateKey, key, uploadId, w, state, n). nat (MaxPartsPerRequest - n))") auto

declare upload_loop.simps [simp del]

definition finish_upload ::
    "env \<Rightarrow> world \<Rightarrow> string \<Rightarrow> string \<Rightarrow> string \<Rightarrow> MultipartState \<Rightarrow> world \<times> engine_ret" where
  \<comment> \<open>lines 797-877: the tail probe, the zero-data case and complete-multipart.
      \<open>sort.Slice\<close> by part number is the stable \<open>sort_key\<close>.\<close>
  "finish_upload e w stateKey key uploadId state =
     (case Read1 (req_body w) of
        (n, err, body') \<Rightarrow>
          (let w1 = w\<lparr>req_body := body'\<rparr>;
               hasMoreData = (n > 0 \<or> (err \<noteq> EOF \<and> err \<noteq> NoError))
           in if hasMoreData then
                (SaveMultipartState w1 stateKey state,
                 (Some \<lparr> res_BytesUploaded = BytesUploaded state, IsComplete = False,
                         State = Some state, CompletedKey = [] \<rparr>, None))
              else if CompletedParts state = [] then
                (let w2 = (case SignAbortMultipartUpload (dep e) key uploadId of
                             Inl serr \<Rightarrow> w1
                           | Inr abortReq \<Rightarrow> fst (Send e w1 (AbortMultipartUpload key uploadId)))
                 in (DeleteMultipartState w2 stateKey,
                     (Some \<lparr> res_BytesUploaded = 0, IsComplete = True, State = None, CompletedKey = [] \<rparr>, None)))
              else
                (let parts = sort_key PartNumber (CompletedParts state)
                 in case SignCompleteMultipartUpload (dep e) key uploadId (xml_Marshal e parts) of
                      Inl serr \<Rightarrow> (w1, (None, Some SignCompleteError))
                    | Inr completeReqSigned \<Rightarrow>
                        (case Send e w1 (CompleteMultipartUpload key uploadId parts) of
                           (w2, SendError) \<Rightarrow> (w2, (None, Some CompleteSendError))
                         | (w2, Response completeResp) \<Rightarrow>
                             if StatusCode completeResp \<noteq> 200
                             then (w2, (None, Some (CompleteStatusError (StatusCode completeResp))))
                             else (SaveCompletedUpload (DeleteMultipartState w2 stateKey) stateKey key,
                                   (Some \<lparr> res_BytesUploaded = BytesUploaded state, IsComplete = True,
                                           State = None, CompletedKey = key \<rparr>, None))))))"

definition run_parts ::
    "env \<Rightarrow> world \<Rightarrow> string \<Rightarrow> string \<Rightarrow> string \<Rightarrow> MultipartState \<Rightarrow> int \<Rightarrow> world \<times> engine_ret" where
  \<comment> \<open>lines 721-877: the main loop, then the tail\<close>
  "run_parts e w stateKey key uploadId state partsUploadedThisRequest =
     (case upload_loop e stateKey key uploadId w state partsUploadedThisRequest of
        (w', Inl ret) \<Rightarrow> (w', ret)
      | (w', Inr state') \<Rightarrow> finish_upload e w' stateKey key uploadId state')"

definition ResumableMultipartUpload :: "env \<Rightarrow> world \<Rightarrow> string \<Rightarrow> string \<Rightarrow> world \<times> engine_ret" where
  "ResumableMultipartUpload e w repoName key =
     (case ReadFull (req_body w) IdentifyChunkSize of
        (identifyData, err, body') \<Rightarrow>
          (let w0 = w\<lparr>req_body := body'\<rparr>
           in if err = EOF then
                (w0, (Some \<lparr> res_BytesUploaded = 0, IsComplete = True, State = None, CompletedKey = [] \<rparr>, None))
              else if err \<noteq> NoError \<and> err \<noteq> ErrUnexpectedEOF then (w0, (None, Some ReadIdentifyError))
              else
                (let contentHash = sha256Hex identifyData;
                     stateKey = repoName @ ''/'' @ take 16 contentHash
                 in case check_completed e w0 stateKey of
                      (w1, Some completedKey) \<Rightarrow>
                        (w1, (Some \<lparr> res_BytesUploaded = 0, IsComplete = True, State = None,
                                     CompletedKey = completedKey \<rparr>, None))
                    | (w1, None) \<Rightarrow>
                        (case resume_probe e w1 stateKey (take 16 contentHash) key of
                           (w2, FastResume state) \<Rightarrow>
                             (w2, (Some \<lparr> res_BytesUploaded = BytesUploaded state, IsComplete = False,
                                          State = Some state, CompletedKey = [] \<rparr>, None))
                         | (w2, StartFresh key') \<Rightarrow>
                             (case start_fresh e w2 key' identifyData (take 16 contentHash) of
                                (w3, Inl ret) \<Rightarrow> (w3, ret)
                              | (w3, Inr (state, uploadId)) \<Rightarrow> run_parts e w3 stateKey key' uploadId state 1)
                         | (w2, Resume state key' uploadId bytesAlreadyUploaded) \<Rightarrow>
                             run_parts e w2 stateKey key' uploadId state
                               (if 0 <s bytesAlreadyUploaded then 0 else 1)))))"

section \<open>The handlers of uploads.go\<close>

text \<open>
  A handler either returns an \<open>OCIError\<close> (\<open>Failed\<close>), or writes a status and the headers
  it has set and returns \<open>nil\<close> (\<open>Written\<close>), or panics. Of an error's \<open>Message\<close> the
  constant text is kept; the rendering of a wrapped Go error in it is left out.
\<close>

datatype outcome =
    Failed OCIError
  | Written int "(string \<times> string) list"
  | Panic

definition max_int64 :: "int64 \<Rightarrow> int64 \<Rightarrow> int64" where
  \<comment> \<open>\<open>func max(a, b int64) int64\<close>\<close>
  "max_int64 a b = (if b <s a then a else b)"

definition session_key :: "string \<Rightarrow> string" where
  "session_key uploadUUID = ''uploads/'' @ uploadUUID"

definition lookup_session :: "world \<Rightarrow> string \<Rightarrow> world \<times> UploadSession option" where
  \<comment> \<open>\<open>store.Lookup(key)\<close> and the decoding of the session\<close>
  "lookup_session w uploadUUID =
     (w\<lparr>kv_log := kv_log w @ [KVLookup (session_key uploadUUID)]\<rparr>, uploads_kv w (session_key uploadUUID))"

definition insert_session :: "world \<Rightarrow> string \<Rightarrow> UploadSession \<Rightarrow> world" where
  \<comment> \<open>\<open>store.Insert(key, json.Marshal(session))\<close>\<close>
  "insert_session w uploadUUID session =
     w\<lparr>uploads_kv := (uploads_kv w)(session_key uploadUUID \<mapsto> session),
       kv_log := kv_log w @ [KVInsert (session_key uploadUUID)]\<rparr>"

definition delete_session :: "world \<Rightarrow> string \<Rightarrow> world" where
  \<comment> \<open>\<open>store.Delete(key)\<close>\<close>
  "delete_session w uploadUUID =
     w\<lparr>uploads_kv := (uploads_kv w)(session_key uploadUUID := None),
       kv_log := kv_log w @ [KVDelete (session_key uploadUUID)]\<rparr>"

definition upload_accepted :: "string \<Rightarrow> string \<Rightarrow> string \<Rightarrow> outcome" where
  \<comment> \<open>the four headers and \<open>w.WriteHeader(fsthttp.StatusAccepted)\<close> of every 202 reply\<close>
  "upload_accepted name uploadUUID rangeValue =
     Written 202
       [(''Location'', ''/v2/'' @ name @ ''/blobs/uploads/'' @ uploadUUID),
        (''Docker-Upload-UUID'', uploadUUID),
        (''Range'', rangeValue),
        (''Content-Length'', ''0'')]"

definition unknown_upload :: "string \<Rightarrow> OCIError" where
  "unknown_upload uploadUUID =
     \<lparr> Code = ''BLOB_UPLOAD_UNKNOWN'', Message = ''blob upload unknown to registry'',
       Detail = uploadUUID, Status = 404 \<rparr>"

definition unsupported :: "string \<Rightarrow> OCIError" where
  \<comment> \<open>every backend failure: code \<open>UNSUPPORTED\<close>, status 500\<close>
  "unsupported msg = \<lparr> Code = ''UNSUPPORTED'', Message = msg, Detail = [], Status = 500 \<rparr>"

definition is_2xx :: "int \<Rightarrow> bool" where
  "is_2xx status = (200 \<le> status \<and> status < 300)"

definition chunk_done :: "world \<Rightarrow> string \<Rightarrow> string \<Rightarrow> UploadSession \<Rightarrow> world \<times> outcome" where
  \<comment> \<open>lines 227-234, the reply at the end of \<open>handleUploadChunk\<close>\<close>
  "chunk_done w name uploadUUID session =
     (w, upload_accepted name uploadUUID (''0-'' @ show_int (sint (max_int64 0 (BytesReceived session - 1)))))"

definition direct_put ::
    "env \<Rightarrow> world \<Rightarrow> string \<Rightarrow> string \<Rightarrow> UploadSession \<Rightarrow> int64 \<Rightarrow> world \<times> outcome" where
  \<comment> \<open>lines 196-225: a body of known size goes to the temp key in one PUT\<close>
  "direct_put e w name uploadUUID session contentLengthInt =
     (let chunkKey = TempLocation session @ ''/data''
      in case SignPutRequest (dep e) chunkKey ''application/octet-stream'' of
           Inl serr \<Rightarrow> (w, Failed (unsupported ''S3 auth error''))
         | Inr s3Req \<Rightarrow>
             (case Send e (w\<lparr>req_body := (req_body w)\<lparr>pending := []\<rparr>\<rparr>) (Put chunkKey (pending (req_body w))) of
                (w1, SendError) \<Rightarrow> (w1, Failed (unsupported ''S3 request failed''))
              | (w1, Response resp) \<Rightarrow>
                  if \<not> is_2xx (StatusCode resp) then (w1, Failed (unsupported ''Chunk upload failed''))
                  else (let session' = session\<lparr>BytesReceived := BytesReceived session + contentLengthInt\<rparr>
                        in chunk_done (insert_session w1 uploadUUID session') name uploadUUID session')))"

definition after_multipart ::
    "world \<Rightarrow> string \<Rightarrow> string \<Rightarrow> UploadSession \<Rightarrow> MultipartUploadResult \<Rightarrow> world \<times> outcome" where
  \<comment> \<open>lines 159-195: what \<open>handleUploadChunk\<close> does with a result returned without error\<close>
  "after_multipart w name uploadUUID session result =
     (if CompletedKey result \<noteq> [] \<and> IsComplete result then
        (let session' = session\<lparr> TempLocation := TrimSuffix (CompletedKey result) ''/data'',
                                 BytesReceived := 1 \<rparr>
         in (insert_session w uploadUUID session', upload_accepted name uploadUUID ''0-0''))
      else if 0 <s res_BytesUploaded result then
        (let session1 = session\<lparr>BytesReceived := res_BytesUploaded result\<rparr>;
             session2 =
               (if State result \<noteq> None \<and> S3Key (the (State result)) \<noteq> []
                then session1\<lparr>TempLocation := TrimSuffix (S3Key (the (State result))) ''/data''\<rparr>
                else if CompletedKey result \<noteq> []
                then session1\<lparr>TempLocation := TrimSuffix (CompletedKey result) ''/data''\<rparr>
                else session1);
             w1 = insert_session w uploadUUID session2
         in if \<not> IsComplete result
            then (w1, upload_accepted name uploadUUID
                        (''0-'' @ show_int (sint (res_BytesUploaded result - 1))))
            else chunk_done w1 name uploadUUID session2)
      else chunk_done w name uploadUUID session)"

definition handleUploadChunk ::
    "env \<Rightarrow> world \<Rightarrow> string \<Rightarrow> string \<Rightarrow> string \<Rightarrow> string \<Rightarrow> world \<times> outcome" where
  \<comment> \<open>\<open>contentLength\<close> and \<open>transferEncoding\<close> are the request's \<open>Content-Length\<close> and
      \<open>Transfer-Encoding\<close> headers; the request body is \<open>req_body\<close> of the world. The
      message of the 500 answer continues with the text of the engine's error, which is
      left out here.\<close>
  "handleUploadChunk e w contentLength transferEncoding name uploadUUID =
     (case lookup_session w uploadUUID of
        (w0, None) \<Rightarrow> (w0, Failed (unknown_upload uploadUUID))
      | (w0, Some session) \<Rightarrow>
          (let contentLengthInt = Sscanf_d e contentLength
           in if 0 <s BytesReceived session \<and> transferEncoding = ''chunked'' then
                (w0, upload_accepted name uploadUUID (''0-'' @ show_int (sint (BytesReceived session - 1))))
              else if contentLengthInt = 0 \<and> transferEncoding = ''chunked'' then
                (case ResumableMultipartUpload e w0 name (TempLocation session @ ''/data'') of
                   (w1, (result, Some err)) \<Rightarrow> (w1, Failed (unsupported ''Multipart upload failed''))
                 | (w1, (None, None)) \<Rightarrow> (w1, Panic)
                 | (w1, (Some result, None)) \<Rightarrow> after_multipart w1 name uploadUUID session result)
              else if 0 <s contentLengthInt then direct_put e w0 name uploadUUID session contentLengthInt
              else chunk_done w0 name uploadUUID session))"

subsection \<open>\<open>handleCompleteUpload\<close>, the finalizer\<close>

definition try_copy :: "env \<Rightarrow> world \<Rightarrow> string \<Rightarrow> string \<Rightarrow> world \<times> bool" where
  \<comment> \<open>lines 298-310: the server-side COPY and \<open>copyWorked\<close>\<close>
  "try_copy e w sourceKey finalKey =
     (case SignCopyRequest (dep e) finalKey sourceKey of
        Inl serr \<Rightarrow> (w, False)
      | Inr copyReq \<Rightarrow>
          (case Send e w (Copy finalKey sourceKey) of
             (w1, SendError) \<Rightarrow> (w1, False)
           | (w1, Response copyResp) \<Rightarrow> (w1, is_2xx (StatusCode copyResp))))"

definition fetch_and_put :: "env \<Rightarrow> world \<Rightarrow> string \<Rightarrow> string \<Rightarrow> world \<times> OCIError option" where
  \<comment> \<open>lines 312-352: the fallback, GET the temp object and PUT it to the final key\<close>
  "fetch_and_put e w sourceKey finalKey =
     (case SignGetRequest (dep e) sourceKey of
        Inl serr \<Rightarrow> (w, Some (unsupported ''S3 auth error''))
      | Inr getReq \<Rightarrow>
          (case Send e w (Get sourceKey) of
             (w1, SendError) \<Rightarrow> (w1, Some (unsupported ''Object Storage GET failed''))
           | (w1, Response getResp) \<Rightarrow>
               if \<not> is_2xx (StatusCode getResp)
               then (w1, Some (unsupported ''Failed to fetch temp blob''))
               else (case SignPutRequest (dep e) finalKey ''application/octet-stream'' of
                       Inl serr \<Rightarrow> (w1, Some (unsupported ''S3 auth error''))
                     | Inr putReq \<Rightarrow>
                         (case Send e w1 (Put finalKey (resp_Body getResp)) of
                            (w2, SendError) \<Rightarrow> (w2, Some (unsupported ''Object Storage PUT failed''))
                          | (w2, Response putResp) \<Rightarrow>
                              if \<not> is_2xx (StatusCode putResp)
                              then (w2, Some (unsupported ''Failed to copy blob to final location''))
                              else (w2, None)))))"

definition cleanup_temp :: "env \<Rightarrow> world \<Rightarrow> string \<Rightarrow> world" where
  \<comment> \<open>lines 354-359: the temp object is deleted, best effort\<close>
  "cleanup_temp e w sourceKey =
     (case SignDeleteRequest (dep e) sourceKey of
        Inl serr \<Rightarrow> w
      | Inr delReq \<Rightarrow> fst (Send e w (Delete sourceKey)))"

definition copy_to_final :: "env \<Rightarrow> world \<Rightarrow> string \<Rightarrow> string \<Rightarrow> world \<times> OCIError option" where
  \<comment> \<open>lines 294-359\<close>
  "copy_to_final e w sourceKey finalKey =
     (case try_copy e w sourceKey finalKey of
        (w1, copyWorked) \<Rightarrow>
          (case (if copyWorked then (w1, None) else fetch_and_put e w1 sourceKey finalKey) of
             (w2, Some oerr) \<Rightarrow> (w2, Some oerr)
           | (w2, None) \<Rightarrow> (cleanup_temp e w2 sourceKey, None)))"

definition store_final ::
    "env \<Rightarrow> world \<Rightarrow> UploadSession \<Rightarrow> string \<Rightarrow> int64 \<Rightarrow> world \<times> OCIError option" where
  \<comment> \<open>lines 271-360: the monolithic PUT, or the copy of the temp object, or nothing\<close>
  "store_final e w session finalKey contentLengthInt =
     (if 0 <s contentLengthInt then
        (case SignPutRequest (dep e) finalKey ''application/octet-stream'' of
           Inl serr \<Rightarrow> (w, Some (unsupported ''S3 auth error''))
         | Inr s3Req \<Rightarrow>
             (case Send e (w\<lparr>req_body := (req_body w)\<lparr>pending := []\<rparr>\<rparr>) (Put finalKey (pending (req_body w))) of
                (w1, SendError) \<Rightarrow> (w1, Some (unsupported ''Object Storage request failed''))
              | (w1, Response resp) \<Rightarrow>
                  if \<not> is_2xx (StatusCode resp) then (w1, Some (unsupported ''Object Storage upload failed''))
                  else (w1, None)))
      else if 0 <s BytesReceived session then copy_to_final e w (TempLocation session @ ''/data'') finalKey
      else (w, None))"

definition handleCompleteUpload ::
    "env \<Rightarrow> world \<Rightarrow> string \<Rightarrow> string \<Rightarrow> string \<Rightarrow> string \<Rightarrow> world \<times> outcome" where
  "handleCompleteUpload e w contentLength name uploadUUID expectedDigest =
     (case lookup_session w uploadUUID of
        (w0, None) \<Rightarrow> (w0, Failed (unknown_upload uploadUUID))
      | (w0, Some session) \<Rightarrow>
          if \<not> HasPrefix expectedDigest ''sha256:'' then
            (w0, Failed \<lparr> Code = ''DIGEST_INVALID'', Message = ''Invalid digest format'',
                          Detail = expectedDigest, Status = 400 \<rparr>)
          else
            (let digestHash = drop 7 expectedDigest
             in case slice digestHash 0 2 of
                  None \<Rightarrow> (w0, Panic)
                | Some h02 \<Rightarrow>
                    (case slice digestHash 2 4 of
                       None \<Rightarrow> (w0, Panic)
                     | Some h24 \<Rightarrow>
                         (let finalKey = ''blobs/sha256/'' @ h02 @ ''/'' @ h24 @ ''/'' @ digestHash
                          in case store_final e w0 session finalKey (Sscanf_d e contentLength) of
                               (w1, Some oerr) \<Rightarrow> (w1, Failed oerr)
                             | (w1, None) \<Rightarrow>
                                 (DeleteMultipartState (delete_session w1 uploadUUID)
                                    (TempLocation session @ ''/data''),
                                  Written 201
                                    [(''Location'', ''/v2/'' @ name @ ''/blobs/'' @ expectedDigest),
                                     (''Docker-Content-Digest'', expectedDigest),
                                     (''Content-Length'', ''0'')])))))"


subsection \<open>Reading the log of object-store requests\<close>

fun is_UploadPart :: "s3_op \<Rightarrow> bool" where
  "is_UploadPart (UploadPart key uploadId partNumber partData) = True"
| "is_UploadPart _ = False"

fun part_sizes :: "s3_op list \<Rightarrow> (int \<times> nat) list" where
  \<comment> \<open>part number and body length of each upload-part request, in order\<close>
  "part_sizes [] = []"
| "part_sizes (UploadPart key uploadId partNumber partData # ops) =
     (partNumber, length partData) # part_sizes ops"
| "part_sizes (_ # ops) = part_sizes ops"

fun part_bodies :: "s3_op list \<Rightarrow> byte list" where
  \<comment> \<open>the bodies of the upload-part requests, one after the other\<close>
  "part_bodies [] = []"
| "part_bodies (UploadPart key uploadId partNumber partData # ops) = partData @ part_bodies ops"
| "part_bodies (_ # ops) = part_bodies ops"


fun expected_parts :: "string \<Rightarrow> string \<Rightarrow> int \<Rightarrow> nat \<Rightarrow> byte list \<Rightarrow> s3_op list" where
  \<comment> \<open>\<open>k\<close> upload-part requests that cut \<open>data\<close> into pieces of \<open>PartSize\<close> bytes, numbered
      from \<open>n\<close>: what the claims about a whole payload compare the log with\<close>
  "expected_parts key uploadId n 0 data = []"
| "expected_parts key uploadId n (Suc k) data =
     UploadPart key uploadId n (take PartSize data)
       # expected_parts key uploadId (n + 1) k (drop PartSize data)"

section \<open>Concrete inputs\<close>

text \<open>A deployment, a backend and sessions to run the functions on.\<close>

definition demo_dep :: deployment where
  "demo_dep =
     \<lparr> FastlyOSHost = ''eu-central.object.fastlystorage.app'',
       FastlyOSRegion = ''eu-central'',
       S3Bucket = ''registry-blobs'',
       credentials = Some (''AKIDEXAMPLE'', ''wJalrXUtnFEMI/K7MDENG+bPxRfiCYEXAMPLEKEY''),
       now_date = ''20240115'',
       now_datetime = ''20240115T103000Z'',
       now_rfc3339 = ''2024-01-15T10:30:00Z'' \<rparr>"

definition ok_response :: s3_response where
  \<comment> \<open>status 200, no \<open>ETag\<close> header, a body that decodes to the upload id \<open>upload-1\<close>\<close>
  "ok_response =
     \<lparr> StatusCode = 200, resp_ETag = [], resp_UploadId = Some ''upload-1'',
       resp_Parts = None, resp_Body = [] \<rparr>"

fun scan_decimal :: "string \<Rightarrow> int64" where
  \<comment> \<open>a stand-in for \<open>Sscanf\<close> on the headers used here: the empty header gives 0, a
      header of decimal digits its value\<close>
  "scan_decimal s = (if s \<noteq> [] \<and> list_all (\<lambda>c. c \<in> set ''0123456789'') s
                     then fold (\<lambda>c n. 10 * n + (of_char c - 48)) s 0 else 0)"

definition demo_env :: env where
  \<comment> \<open>a backend that answers every request with \<open>ok_response\<close>\<close>
  "demo_env =
     \<lparr> dep = demo_dep,
       backend = (\<lambda>history op. Response ok_response),
       Sscanf_d = scan_decimal,
       xml_Marshal = (\<lambda>parts. []) \<rparr>"

definition limited_env :: env where
  \<comment> \<open>a backend that answers every request but the upload of part 2, which fails to send\<close>
  "limited_env =
     demo_env\<lparr> backend := (\<lambda>history op.
        case op of
          UploadPart key uploadId partNumber partData \<Rightarrow>
            if partNumber = 2 then SendError else Response ok_response
        | _ \<Rightarrow> Response ok_response) \<rparr>"

definition demo_session :: UploadSession where
  "demo_session =
     \<lparr> UUID = ''7c9e6679'', Repo = ''library/app'', sess_StartedAt = ''2024-01-15T10:29:00Z'',
       BytesReceived = 0, TempLocation = ''uploads/library/app/7c9e6679'',
       ExpiresAt = ''2024-01-15T11:29:00Z'' \<rparr>"

definition demo_world :: "UploadSession \<Rightarrow> byte list \<Rightarrow> world" where
  \<comment> \<open>a KV store that holds only the session, nothing sent yet, a request body of the
      given bytes that ends cleanly\<close>
  "demo_world session bytes =
     \<lparr> uploads_kv = [session_key (UUID session) \<mapsto> session],
       multipart_kv = Map.empty,
       completed_kv = Map.empty,
       kv_log = [],
       s3_log = [],
       req_body = \<lparr> pending = bytes, broken = False \<rparr> \<rparr>"

definition demo_fingerprint :: string where
  \<comment> \<open>the fingerprint of the three-byte body used below\<close>
  "demo_fingerprint = take 16 (sha256Hex [1, 2, 3])"

definition demo_stateKey :: string where
  "demo_stateKey = ''library/app'' @ ''/'' @ demo_fingerprint"

definition completed_world :: world where
  \<comment> \<open>the content of the body was assembled before, under an older session\<close>
  "completed_world =
     (demo_world demo_session [1, 2, 3])
       \<lparr>completed_kv := [completed_key demo_stateKey \<mapsto> ''uploads/library/app/0f8fad5b/data'']\<rparr>"

definition demo_checkpoint :: MultipartState where
  "demo_checkpoint =
     \<lparr> S3UploadId = ''upload-0'', S3Key = ''uploads/library/app/0f8fad5b/data'',
       CompletedParts = [], NextPartNumber = 1, BytesUploaded = 0,
       StartedAt = ''2024-01-15T10:00:00Z'', ContentHash = demo_fingerprint \<rparr>"

definition resume_world :: world where
  \<comment> \<open>an upload of the same content was interrupted under an older session\<close>
  "resume_world =
     (demo_world demo_session [1, 2, 3])
       \<lparr>multipart_kv := [multipart_key demo_stateKey \<mapsto> demo_checkpoint]\<rparr>"

definition listed_parts :: "ListPartResult list" where
  "listed_parts =
     [\<lparr> lp_PartNumber = 1, lp_ETag = ''p1'', lp_Size = 16777216 \<rparr>,
      \<lparr> lp_PartNumber = 2, lp_ETag = ''p2'', lp_Size = 16777216 \<rparr>]"

definition listing_env :: env where
  \<comment> \<open>a backend whose answers list two parts of 16 MiB\<close>
  "listing_env =
     demo_env\<lparr> backend := (\<lambda>history op. Response (ok_response\<lparr>resp_Parts := Some listed_parts\<rparr>)) \<rparr>"

definition full_world :: world where
  \<comment> \<open>a fresh store and a body of exactly 28 times 16 MiB\<close>
  "full_world = demo_world demo_session (replicate 469762048 0)"

definition limit_world :: world where
  \<comment> \<open>a fresh store and a body of 16 MiB and 5 bytes: one full part and a short one\<close>
  "limit_world = demo_world demo_session (replicate 16777221 0)"

definition limit_stateKey :: string where
  "limit_stateKey = ''library/app'' @ ''/'' @ take 16 (sha256Hex (replicate 1048576 0))"

section \<open>Facts about hashes and signatures\<close>

lemma length_be32: "length (be32 x) = 4"
  by (simp add: be32_def)

lemma length_sha_out: "length (sha_out s) = 32"
  by (induction s rule: sha_out.induct) (simp add: length_be32)

lemma length_Sum256: "length (Sum256 m) = 32"
  by (simp add: Sum256_def Let_def length_sha_out)

lemma length_EncodeToString: "length (EncodeToString bs) = 2 * length bs"
  by (induction bs) (simp_all add: EncodeToString_def)

lemma hexdigit_lower: "is_lower_hex (hexdigit n)"
proof -
  have "n mod 16 < length ''0123456789abcdef''" by simp
  then have "''0123456789abcdef'' ! (n mod 16) \<in> set ''0123456789abcdef''"
    by (rule nth_mem)
  then show ?thesis by (simp only: is_lower_hex_def hexdigit_def)
qed

lemma EncodeToString_lower: "list_all is_lower_hex (EncodeToString bs)"
  by (induction bs) (simp_all add: EncodeToString_def hexdigit_lower)

lemma length_sha256Hex: "length (sha256Hex m) = 64"
  by (simp add: sha256Hex_def length_EncodeToString length_Sum256)

lemma length_hmac: "length (hmac_sha256 k m) = 32"
  by (simp add: hmac_sha256_def Let_def length_Sum256)

text \<open>
  Claim C6. For every secret key, date, region (the deployment's \<open>FastlyOSRegion\<close>) and
  string-to-sign, the signature that \<open>calculateSignature\<close> computes is the lowercase hex
  encoding of \<open>HMAC-SHA256(K, string-to-sign)\<close> with
  \<open>K = HMAC(HMAC(HMAC(HMAC("AWS4"+secret, date), region), "s3"), "aws4_request")\<close>:
  it equals the specification's formula, and it is 64 characters, all of them lowercase
  hex digits.
\<close>

theorem calculateSignature_is_spec_signature:
  "calculateSignature d secretKey date stringToSign
     = spec_signature secretKey date (FastlyOSRegion d) stringToSign
   \<and> length (calculateSignature d secretKey date stringToSign) = 64
   \<and> list_all is_lower_hex (calculateSignature d secretKey date stringToSign)"
  by (simp add: calculateSignature_def spec_signature_def spec_signing_key_def hmacSHA256_def
        S3Service_def Let_def length_EncodeToString length_hmac EncodeToString_lower)

section \<open>Facts about the handlers\<close>

lemma slice_ok: "lo \<le> hi \<Longrightarrow> hi \<le> length s \<Longrightarrow> slice s lo hi = Some (take (hi - lo) (drop lo s))"
  by (simp add: slice_def)

lemma HasPrefix_append: "HasPrefix (p @ s) p"
  by (simp add: HasPrefix_def)



lemma HasPrefix_split: "HasPrefix d p \<Longrightarrow> d = p @ drop (length p) d"
  by (metis HasPrefix_def append_take_drop_id)








lemma lookup_session_fst: "fst (lookup_session w u) = w\<lparr>kv_log := kv_log w @ [KVLookup (session_key u)]\<rparr>"
  by (simp add: lookup_session_def)



lemma sint_pred_pos: "0 <s (b::int64) \<Longrightarrow> sint (b - 1) = sint b - 1"
proof -
  assume "0 <s b"
  then have pos: "0 < sint b" by (simp add: word_sless_alt)
  have lt: "sint b < 2 ^ 63" using sint_lt [of b] by simp
  have "sint (b - 1) = signed_take_bit 63 (sint b - 1)"
    by (simp add: sint_word_diff)
  also have "\<dots> = sint b - 1"
    by (rule signed_take_bit_int_eq_self) (use pos lt in simp_all)
  finally show ?thesis .
qed

text \<open>
  Claim C3. A PATCH whose session record has \<open>bytes_received > 0\<close> and whose
  \<open>Transfer-Encoding\<close> is \<open>chunked\<close> is answered at once with 202 and
  \<open>Range: 0-<bytes_received-1>\<close>: the world after it differs from the world before only
  by the lookup of the session in the KV log, so no byte of the body is read, nothing is
  sent to the object store, and the session record is as it was.
\<close>

theorem fast_path_on_reentry:
  assumes "uploads_kv w (session_key uploadUUID) = Some session"
    and "0 <s BytesReceived session"
  shows "handleUploadChunk e w contentLength ''chunked'' name uploadUUID
           = (w\<lparr>kv_log := kv_log w @ [KVLookup (session_key uploadUUID)]\<rparr>,
              Written 202
                [(''Location'', ''/v2/'' @ name @ ''/blobs/uploads/'' @ uploadUUID),
                 (''Docker-Upload-UUID'', uploadUUID),
                 (''Range'', ''0-'' @ show_int (sint (BytesReceived session) - 1)),
                 (''Content-Length'', ''0'')])"
  using assms
  by (simp add: handleUploadChunk_def lookup_session_def upload_accepted_def Let_def sint_pred_pos)

lemma ReadFull_empty: "pending r = [] \<Longrightarrow> \<not> broken r \<Longrightarrow> 0 < n \<Longrightarrow> ReadFull r n = ([], EOF, r)"
  by (simp add: ReadFull_def)

lemma engine_empty_body:
  assumes "pending (req_body w) = []" "\<not> broken (req_body w)"
  shows "ResumableMultipartUpload e w repoName key
           = (w, (Some \<lparr> res_BytesUploaded = 0, IsComplete = True, State = None, CompletedKey = [] \<rparr>, None))"
  using assms by (simp add: ResumableMultipartUpload_def ReadFull_def IdentifyChunkSize_def)

text \<open>
  Claim C9. A PATCH with an empty body (the stream ends cleanly at zero bytes; its
  \<open>Content-Length\<close>, if any, is not positive) on a session with \<open>bytes_received = 0\<close> is
  answered with 202 and \<open>Range: 0-0\<close>, and nothing is sent to the object store: the world
  changes only by the lookup of the session.
\<close>

theorem empty_body_patch:
  assumes "uploads_kv w (session_key uploadUUID) = Some session"
    and "BytesReceived session = 0"
    and "pending (req_body w) = []" and "\<not> broken (req_body w)"
    and "\<not> 0 <s Sscanf_d e contentLength"
  shows "handleUploadChunk e w contentLength transferEncoding name uploadUUID
           = (w\<lparr>kv_log := kv_log w @ [KVLookup (session_key uploadUUID)]\<rparr>,
              Written 202
                [(''Location'', ''/v2/'' @ name @ ''/blobs/uploads/'' @ uploadUUID),
                 (''Docker-Upload-UUID'', uploadUUID),
                 (''Range'', ''0-0''),
                 (''Content-Length'', ''0'')])"
proof -
  let ?w0 = "w\<lparr>kv_log := kv_log w @ [KVLookup (session_key uploadUUID)]\<rparr>"
  have eng: "ResumableMultipartUpload e ?w0 name (TempLocation session @ ''/data'')
           = (?w0, (Some \<lparr> res_BytesUploaded = 0, IsComplete = True, State = None, CompletedKey = [] \<rparr>, None))"
    using assms(3,4) by (intro engine_empty_body) simp_all
  have fin: "chunk_done ?w0 name uploadUUID session
           = (?w0, upload_accepted name uploadUUID ''0-0'')"
    using assms(2) by (simp add: chunk_done_def max_int64_def show_int_def digit_char_def word_sless_alt)
  show ?thesis
    using assms(1,2,5) eng fin
    by (simp add: handleUploadChunk_def lookup_session_def Let_def after_multipart_def
          upload_accepted_def)
qed


lemma signRequest_ok:
  "credentials d = Some c \<Longrightarrow> (case signRequest d m k ct of Inl serr \<Rightarrow> A | Inr req \<Rightarrow> B) = B"
  by (cases c) (simp add: signRequest_def)

lemma signRequest_fail:
  "credentials d = None \<Longrightarrow> (case signRequest d m k ct of Inl serr \<Rightarrow> A | Inr req \<Rightarrow> B) = A"
  by (simp add: signRequest_def)

lemma SignCopyRequest_ok:
  "credentials d = Some c \<Longrightarrow> (case SignCopyRequest d k k' of Inl serr \<Rightarrow> A | Inr req \<Rightarrow> B) = B"
  by (cases c) (simp add: SignCopyRequest_def)

lemma SignInitiateMultipartUpload_ok:
  "credentials d = Some c \<Longrightarrow> (case SignInitiateMultipartUpload d k of Inl serr \<Rightarrow> A | Inr req \<Rightarrow> B) = B"
  by (cases c) (simp add: SignInitiateMultipartUpload_def Let_def)

lemma SignUploadPart_ok:
  "credentials d = Some c \<Longrightarrow> (case SignUploadPart d k u n l of Inl serr \<Rightarrow> A | Inr req \<Rightarrow> B) = B"
  by (cases c) (simp add: SignUploadPart_def)

lemma SignCompleteMultipartUpload_ok:
  "credentials d = Some c \<Longrightarrow> (case SignCompleteMultipartUpload d k u b of Inl serr \<Rightarrow> A | Inr req \<Rightarrow> B) = B"
  by (cases c) (simp add: SignCompleteMultipartUpload_def Let_def)

lemma sign_with_uploadId_ok:
  "credentials d = Some c \<Longrightarrow> (case sign_with_uploadId d m k u of Inl serr \<Rightarrow> A | Inr req \<Rightarrow> B) = B"
  by (cases c) (simp add: sign_with_uploadId_def Let_def)

lemmas sign_ok =
  signRequest_ok [where m = "''GET''" and ct = "[]", folded SignGetRequest_def]
  signRequest_ok [where m = "''HEAD''" and ct = "[]", folded SignHeadRequest_def]
  signRequest_ok [where m = "''DELETE''" and ct = "[]", folded SignDeleteRequest_def]
  signRequest_ok [where m = "''PUT''", folded SignPutRequest_def]
  SignCopyRequest_ok SignInitiateMultipartUpload_ok SignUploadPart_ok SignCompleteMultipartUpload_ok
  sign_with_uploadId_ok [where m = "''GET''", folded SignListParts_def]
  sign_with_uploadId_ok [where m = "''DELETE''", folded SignAbortMultipartUpload_def]

lemma ReadFull_identify:
  assumes "pending r \<noteq> []" and "n \<le> length (pending r) \<or> \<not> broken r"
  shows "\<exists>err. ReadFull r n = (take n (pending r), err, r\<lparr>pending := drop n (pending r)\<rparr>)
           \<and> (err = NoError \<or> err = ErrUnexpectedEOF)"
  using assms by (auto simp: ReadFull_def)

lemma check_completed_hit:
  assumes "completed_kv w (completed_key stateKey) = Some completedKey" and "completedKey \<noteq> []"
    and "credentials (dep e) = Some c"
    and "backend e (s3_log w) (Head completedKey) = Response r" and "StatusCode r = 200"
  shows "check_completed e w stateKey
           = (w\<lparr>kv_log := kv_log w @ [KVLookup (completed_key stateKey)],
                 s3_log := s3_log w @ [Head completedKey]\<rparr>, Some completedKey)"
  using assms by (simp add: check_completed_def LoadCompletedUpload_def Send_def sign_ok)

lemma check_completed_absent:
  assumes "completed_kv w (completed_key stateKey) = None"
  shows "check_completed e w stateKey
           = (w\<lparr>kv_log := kv_log w @ [KVLookup (completed_key stateKey)]\<rparr>, None)"
  using assms by (simp add: check_completed_def LoadCompletedUpload_def)

lemma engine_early_exit:
  assumes "pending (req_body w) \<noteq> []"
    and "IdentifyChunkSize \<le> length (pending (req_body w)) \<or> \<not> broken (req_body w)"
    and "stateKey = repoName @ ''/'' @ take 16 (sha256Hex (take IdentifyChunkSize (pending (req_body w))))"
    and "completed_kv w (completed_key stateKey) = Some completedKey" and "completedKey \<noteq> []"
    and "credentials (dep e) = Some c"
    and "backend e (s3_log w) (Head completedKey) = Response r" and "StatusCode r = 200"
  shows "ResumableMultipartUpload e w repoName key
           = (w\<lparr>req_body := (req_body w)\<lparr>pending := drop IdentifyChunkSize (pending (req_body w))\<rparr>,
                 kv_log := kv_log w @ [KVLookup (completed_key stateKey)],
                 s3_log := s3_log w @ [Head completedKey]\<rparr>,
              (Some \<lparr> res_BytesUploaded = 0, IsComplete = True, State = None,
                      CompletedKey = completedKey \<rparr>, None))"
proof -
  let ?w0 = "w\<lparr>req_body := (req_body w)\<lparr>pending := drop IdentifyChunkSize (pending (req_body w))\<rparr>\<rparr>"
  from ReadFull_identify [OF assms(1,2)] obtain err where
    rd: "ReadFull (req_body w) IdentifyChunkSize
           = (take IdentifyChunkSize (pending (req_body w)), err, req_body ?w0)"
    and err: "err = NoError \<or> err = ErrUnexpectedEOF" by auto
  have "check_completed e ?w0 stateKey
           = (?w0\<lparr>kv_log := kv_log ?w0 @ [KVLookup (completed_key stateKey)],
                   s3_log := s3_log ?w0 @ [Head completedKey]\<rparr>, Some completedKey)"
    using assms(4-8) by (intro check_completed_hit) simp_all
  with rd err assms(3) show ?thesis
    by (auto simp: ResumableMultipartUpload_def Let_def)
qed

lemma TrimSuffix_append: "TrimSuffix (loc @ suf) suf = loc"
  by (simp add: TrimSuffix_def)

lemma TrimSuffix_other: "\<not> (\<exists>loc. s = loc @ suf) \<Longrightarrow> TrimSuffix s suf = s"
proof -
  assume no: "\<not> (\<exists>loc. s = loc @ suf)"
  have "drop (length s - length suf) s \<noteq> suf"
  proof
    assume "drop (length s - length suf) s = suf"
    then have "s = take (length s - length suf) s @ suf"
      using append_take_drop_id [of "length s - length suf" s] by simp
    with no show False by blast
  qed
  then show ?thesis by (simp add: TrimSuffix_def)
qed

text \<open>
  Claim C10. On the completed-content early exit (the cached key answers HEAD with 200)
  the handler overwrites the session record with \<open>TempLocation\<close> set to the verified key
  without its \<open>/data\<close> suffix and \<open>BytesReceived\<close> set to the constant 1, and replies 202
  with \<open>Range: 0-0\<close>; the one object-store request is the HEAD. A verified key
  \<open>loc/data\<close> leaves \<open>loc\<close> in the session; a key that does not end in \<open>/data\<close> is stored
  as it is.
\<close>

theorem early_exit_overwrites_session:
  assumes "uploads_kv w (session_key uploadUUID) = Some session"
    and "\<not> 0 <s BytesReceived session"
    and "Sscanf_d e contentLength = 0"
    and "pending (req_body w) \<noteq> []"
    and "IdentifyChunkSize \<le> length (pending (req_body w)) \<or> \<not> broken (req_body w)"
    and "completed_kv w (completed_key
           (name @ ''/'' @ take 16 (sha256Hex (take IdentifyChunkSize (pending (req_body w))))))
         = Some completedKey"
    and "completedKey \<noteq> []"
    and "credentials (dep e) = Some c"
    and "backend e (s3_log w) (Head completedKey) = Response r" and "StatusCode r = 200"
  shows "\<exists>w'. handleUploadChunk e w contentLength ''chunked'' name uploadUUID
             = (w', Written 202
                      [(''Location'', ''/v2/'' @ name @ ''/blobs/uploads/'' @ uploadUUID),
                       (''Docker-Upload-UUID'', uploadUUID),
                       (''Range'', ''0-0''),
                       (''Content-Length'', ''0'')])
           \<and> uploads_kv w' (session_key uploadUUID)
               = Some (session\<lparr> TempLocation := TrimSuffix completedKey ''/data'', BytesReceived := 1 \<rparr>)
           \<and> (\<forall>loc. completedKey = loc @ ''/data'' \<longrightarrow>
                 uploads_kv w' (session_key uploadUUID)
                   = Some (session\<lparr> TempLocation := loc, BytesReceived := 1 \<rparr>))
           \<and> (\<not> (\<exists>loc. completedKey = loc @ ''/data'') \<longrightarrow>
                 uploads_kv w' (session_key uploadUUID)
                   = Some (session\<lparr> TempLocation := completedKey, BytesReceived := 1 \<rparr>))
           \<and> s3_log w' = s3_log w @ [Head completedKey]"
proof -
  let ?w0 = "w\<lparr>kv_log := kv_log w @ [KVLookup (session_key uploadUUID)]\<rparr>"
  let ?sk = "name @ ''/'' @ take 16 (sha256Hex (take IdentifyChunkSize (pending (req_body w))))"
  have "ResumableMultipartUpload e ?w0 name (TempLocation session @ ''/data'')
          = (?w0\<lparr>req_body := (req_body ?w0)\<lparr>pending := drop IdentifyChunkSize (pending (req_body ?w0))\<rparr>,
                  kv_log := kv_log ?w0 @ [KVLookup (completed_key ?sk)],
                  s3_log := s3_log ?w0 @ [Head completedKey]\<rparr>,
             (Some \<lparr> res_BytesUploaded = 0, IsComplete = True, State = None,
                     CompletedKey = completedKey \<rparr>, None))"
    using assms(4-10) by (intro engine_early_exit [where c = c and r = r]) simp_all
  with assms(1,2,3,7) have "\<exists>w'. handleUploadChunk e w contentLength ''chunked'' name uploadUUID
             = (w', Written 202
                      [(''Location'', ''/v2/'' @ name @ ''/blobs/uploads/'' @ uploadUUID),
                       (''Docker-Upload-UUID'', uploadUUID),
                       (''Range'', ''0-0''),
                       (''Content-Length'', ''0'')])
           \<and> uploads_kv w' (session_key uploadUUID)
               = Some (session\<lparr> TempLocation := TrimSuffix completedKey ''/data'', BytesReceived := 1 \<rparr>)
           \<and> s3_log w' = s3_log w @ [Head completedKey]"
    by (simp add: handleUploadChunk_def lookup_session_def Let_def after_multipart_def
          insert_session_def upload_accepted_def)
  then obtain w' where
    a: "handleUploadChunk e w contentLength ''chunked'' name uploadUUID
             = (w', Written 202
                      [(''Location'', ''/v2/'' @ name @ ''/blobs/uploads/'' @ uploadUUID),
                       (''Docker-Upload-UUID'', uploadUUID),
                       (''Range'', ''0-0''),
                       (''Content-Length'', ''0'')])"
    and b: "uploads_kv w' (session_key uploadUUID)
               = Some (session\<lparr> TempLocation := TrimSuffix completedKey ''/data'', BytesReceived := 1 \<rparr>)"
    and l: "s3_log w' = s3_log w @ [Head completedKey]"
    by (elim exE conjE)
  have d: "\<forall>loc. completedKey = loc @ ''/data'' \<longrightarrow>
                 uploads_kv w' (session_key uploadUUID)
                   = Some (session\<lparr> TempLocation := loc, BytesReceived := 1 \<rparr>)"
  proof (intro allI impI)
    fix loc assume "completedKey = loc @ ''/data''"
    then have "TrimSuffix completedKey ''/data'' = loc" by (simp only: TrimSuffix_append)
    with b show "uploads_kv w' (session_key uploadUUID)
                   = Some (session\<lparr> TempLocation := loc, BytesReceived := 1 \<rparr>)"
      by (simp only:)
  qed
  have n: "\<not> (\<exists>loc. completedKey = loc @ ''/data'') \<longrightarrow>
                 uploads_kv w' (session_key uploadUUID)
                   = Some (session\<lparr> TempLocation := completedKey, BytesReceived := 1 \<rparr>)"
  proof
    assume "\<not> (\<exists>loc. completedKey = loc @ ''/data'')"
    then have "TrimSuffix completedKey ''/data'' = completedKey" by (rule TrimSuffix_other)
    with b show "uploads_kv w' (session_key uploadUUID)
                   = Some (session\<lparr> TempLocation := completedKey, BytesReceived := 1 \<rparr>)"
      by (simp only:)
  qed
  show ?thesis
    apply (rule exI [of _ w'])
    apply (rule conjI, rule a)
    apply (rule conjI, rule b)
    apply (rule conjI, rule d)
    apply (rule conjI, rule n)
    apply (rule l)
    done
qed


lemma actualBytes_of_Nil: "actualBytes_of [] = 0"
  by (simp add: actualBytes_of_def)

lemma resume_probe_fast:
  assumes "multipart_kv w (multipart_key stateKey) = Some cp" and "ContentHash cp = h16"
    and "credentials (dep e) = Some c"
    and "backend e (s3_log w) (ListParts (S3Key cp) (S3UploadId cp)) = Response r"
    and "StatusCode r = 200" and "resp_Parts r = Some parts" and "0 <s actualBytes_of parts"
  shows "resume_probe e w stateKey h16 key
           = (w\<lparr>kv_log := kv_log w @ [KVLookup (multipart_key stateKey)],
                 s3_log := s3_log w @ [ListParts (S3Key cp) (S3UploadId cp)]\<rparr>,
              FastResume (state_from_list cp parts))"
  using assms by (simp add: resume_probe_def LoadMultipartState_def Send_def Let_def sign_ok)

lemma check_completed_frame:
  assumes "check_completed e w stateKey = (w1, res)"
  shows "multipart_kv w1 = multipart_kv w \<and> uploads_kv w1 = uploads_kv w \<and> req_body w1 = req_body w
           \<and> filter is_UploadPart (s3_log w1) = filter is_UploadPart (s3_log w)"
  using assms
  by (auto simp: check_completed_def LoadCompletedUpload_def DeleteCompletedUpload_def Send_def
           split: if_splits sum.splits s3_outcome.splits)

lemma wrap_int_id: "- (2 ^ 63) \<le> i \<Longrightarrow> i < 2 ^ 63 \<Longrightarrow> wrap_int i = i"
  unfolding wrap_int_def by (simp add: sint_sbintrunc' signed_take_bit_int_eq_self)

lemma wrap_int_overflow: "wrap_int (9223372036854775807 + 1) = - 9223372036854775808"
  by (simp add: wrap_int_def)

text \<open>
  Claim C2. When the invocation has identified the content, has not taken the early
  exit, finds a checkpoint whose fingerprint is the first 16 hex characters of the
  SHA-256 of the identification window, and the list-parts probe answers 200 with parts
  whose sizes add up to more than 0: the probe is sent for the checkpoint's own key and
  upload id (not the key of the new session), the returned state is the checkpoint with
  parts list, byte count and next part number taken from the response, the result is
  incomplete with those bytes, and the invocation sends no upload-part request. The next
  part number is the number of the last listed part plus 1 in Go's 64-bit \<open>int\<close>: one more
  than that number whenever it is below the greatest \<open>int\<close>, and the least \<open>int\<close> when the
  store lists the greatest one.
\<close>

theorem resume_returns_listed_progress:
  assumes "pending (req_body w) \<noteq> []"
    and "IdentifyChunkSize \<le> length (pending (req_body w)) \<or> \<not> broken (req_body w)"
    and "stateKey = repoName @ ''/'' @ take 16 (sha256Hex (take IdentifyChunkSize (pending (req_body w))))"
    and "check_completed e
           (w\<lparr>req_body := (req_body w)\<lparr>pending := drop IdentifyChunkSize (pending (req_body w))\<rparr>\<rparr>) stateKey
         = (w1, None)"
    and "multipart_kv w (multipart_key stateKey) = Some checkpoint"
    and "ContentHash checkpoint = take 16 (sha256Hex (take IdentifyChunkSize (pending (req_body w))))"
    and "credentials (dep e) = Some c"
    and "backend e (s3_log w1) (ListParts (S3Key checkpoint) (S3UploadId checkpoint)) = Response r"
    and "StatusCode r = 200" and "resp_Parts r = Some parts" and "0 <s actualBytes_of parts"
  shows "ResumableMultipartUpload e w repoName key
           = (w1\<lparr>kv_log := kv_log w1 @ [KVLookup (multipart_key stateKey)],
                  s3_log := s3_log w1 @ [ListParts (S3Key checkpoint) (S3UploadId checkpoint)]\<rparr>,
              (Some \<lparr> res_BytesUploaded = actualBytes_of parts,
                      IsComplete = False,
                      State = Some (checkpoint
                        \<lparr> CompletedParts := map (\<lambda>part. \<lparr>PartNumber = lp_PartNumber part, ETag = lp_ETag part\<rparr>) parts,
                          BytesUploaded := actualBytes_of parts,
                          NextPartNumber := wrap_int (lp_PartNumber (last parts) + 1) \<rparr>),
                      CompletedKey = [] \<rparr>, None))
         \<and> filter is_UploadPart (s3_log w1 @ [ListParts (S3Key checkpoint) (S3UploadId checkpoint)])
             = filter is_UploadPart (s3_log w)
         \<and> parts \<noteq> []
         \<and> (- (2 ^ 63) \<le> lp_PartNumber (last parts) \<and> lp_PartNumber (last parts) < 2 ^ 63 - 1 \<longrightarrow>
               wrap_int (lp_PartNumber (last parts) + 1) = lp_PartNumber (last parts) + 1)
         \<and> (lp_PartNumber (last parts) = 2 ^ 63 - 1 \<longrightarrow>
               wrap_int (lp_PartNumber (last parts) + 1) = - (2 ^ 63))"
proof -
  let ?w0 = "w\<lparr>req_body := (req_body w)\<lparr>pending := drop IdentifyChunkSize (pending (req_body w))\<rparr>\<rparr>"
  let ?h16 = "take 16 (sha256Hex (take IdentifyChunkSize (pending (req_body w))))"
  from ReadFull_identify [OF assms(1,2)] obtain err where
    rd: "ReadFull (req_body w) IdentifyChunkSize
           = (take IdentifyChunkSize (pending (req_body w)), err, req_body ?w0)"
    and err: "err = NoError \<or> err = ErrUnexpectedEOF" by auto
  from check_completed_frame [OF assms(4)]
  have frame: "multipart_kv w1 = multipart_kv w"
    and log: "filter is_UploadPart (s3_log w1) = filter is_UploadPart (s3_log w)" by simp_all
  from assms(11) have ne: "parts \<noteq> []"
    by (auto simp: actualBytes_of_Nil word_sless_alt)
  have probe: "resume_probe e w1 stateKey ?h16 key
           = (w1\<lparr>kv_log := kv_log w1 @ [KVLookup (multipart_key stateKey)],
                  s3_log := s3_log w1 @ [ListParts (S3Key checkpoint) (S3UploadId checkpoint)]\<rparr>,
              FastResume (state_from_list checkpoint parts))"
    using assms(5-11) frame by (intro resume_probe_fast [where c = c and r = r]) simp_all
  have "ResumableMultipartUpload e w repoName key
           = (w1\<lparr>kv_log := kv_log w1 @ [KVLookup (multipart_key stateKey)],
                  s3_log := s3_log w1 @ [ListParts (S3Key checkpoint) (S3UploadId checkpoint)]\<rparr>,
              (Some \<lparr> res_BytesUploaded = BytesUploaded (state_from_list checkpoint parts),
                      IsComplete = False,
                      State = Some (state_from_list checkpoint parts),
                      CompletedKey = [] \<rparr>, None))"
    using rd err assms(3,4) probe by (auto simp: ResumableMultipartUpload_def Let_def)
  moreover have "- (2 ^ 63) \<le> lp_PartNumber (last parts) \<and> lp_PartNumber (last parts) < 2 ^ 63 - 1 \<longrightarrow>
               wrap_int (lp_PartNumber (last parts) + 1) = lp_PartNumber (last parts) + 1"
    by (simp add: wrap_int_id)
  moreover have "lp_PartNumber (last parts) = 2 ^ 63 - 1 \<longrightarrow>
               wrap_int (lp_PartNumber (last parts) + 1) = - (2 ^ 63)"
    using wrap_int_overflow by simp
  ultimately show ?thesis using ne log by (simp add: state_from_list_def)
qed








section \<open>The payload hash of COPY\<close>













section \<open>The facts at concrete inputs\<close>

theorem fast_path_on_reentry_witness:
  "uploads_kv (demo_world (demo_session\<lparr>BytesReceived := 16777216\<rparr>) [1, 2, 3]) (session_key ''7c9e6679'')
     = Some (demo_session\<lparr>BytesReceived := 16777216\<rparr>)
   \<and> 0 <s BytesReceived (demo_session\<lparr>BytesReceived := 16777216\<rparr>)
   \<and> handleUploadChunk demo_env (demo_world (demo_session\<lparr>BytesReceived := 16777216\<rparr>) [1, 2, 3])
         [] ''chunked'' ''library/app'' ''7c9e6679''
       = ((demo_world (demo_session\<lparr>BytesReceived := 16777216\<rparr>) [1, 2, 3])
            \<lparr>kv_log := [KVLookup ''uploads/7c9e6679'']\<rparr>,
          Written 202
            [(''Location'', ''/v2/library/app/blobs/uploads/7c9e6679''),
             (''Docker-Upload-UUID'', ''7c9e6679''),
             (''Range'', ''0-16777215''),
             (''Content-Length'', ''0'')])"
proof -
  have 1: "uploads_kv (demo_world (demo_session\<lparr>BytesReceived := 16777216\<rparr>) [1, 2, 3]) (session_key ''7c9e6679'')
     = Some (demo_session\<lparr>BytesReceived := 16777216\<rparr>)"
    by (simp add: demo_world_def demo_session_def)
  have 2: "0 <s BytesReceived (demo_session\<lparr>BytesReceived := 16777216\<rparr>)"
    by (simp add: word_sless_alt)
  have 3: "show_int (sint (BytesReceived (demo_session\<lparr>BytesReceived := 16777216\<rparr>)) - 1) = ''16777215''"
    by (simp add: show_int_def digit_char_def)
  from fast_path_on_reentry [OF 1 2, of demo_env "[]" "''library/app''"] 1 2 3
  show ?thesis by (simp add: demo_world_def session_key_def)
qed

theorem empty_body_patch_witness:
  "uploads_kv (demo_world demo_session []) (session_key ''7c9e6679'') = Some demo_session
   \<and> BytesReceived demo_session = 0
   \<and> pending (req_body (demo_world demo_session [])) = []
   \<and> \<not> broken (req_body (demo_world demo_session []))
   \<and> \<not> 0 <s Sscanf_d demo_env []
   \<and> handleUploadChunk demo_env (demo_world demo_session []) [] ''chunked'' ''library/app'' ''7c9e6679''
       = ((demo_world demo_session [])\<lparr>kv_log := [KVLookup ''uploads/7c9e6679'']\<rparr>,
          Written 202
            [(''Location'', ''/v2/library/app/blobs/uploads/7c9e6679''),
             (''Docker-Upload-UUID'', ''7c9e6679''),
             (''Range'', ''0-0''),
             (''Content-Length'', ''0'')])"
proof -
  have 1: "uploads_kv (demo_world demo_session []) (session_key ''7c9e6679'') = Some demo_session"
    by (simp add: demo_world_def demo_session_def)
  have 2: "BytesReceived demo_session = 0" by (simp add: demo_session_def)
  have 3: "pending (req_body (demo_world demo_session [])) = []" by (simp add: demo_world_def)
  have 4: "\<not> broken (req_body (demo_world demo_session []))" by (simp add: demo_world_def)
  have 5: "\<not> 0 <s Sscanf_d demo_env []" by (simp add: demo_env_def)
  from empty_body_patch [OF 1 2 3 4 5, of "''chunked''" "''library/app''"] 1 2 3 4 5
  show ?thesis by (simp add: demo_world_def session_key_def)
qed


text \<open>The check in \<open>handleRoute\<close> is what keeps short digests away from
  \<open>handleCompleteUpload\<close>, which tests only the prefix \<open>sha256:\<close> itself: called directly with
  \<open>sha256:ab\<close>, a digest that no request brings as far as this function, it would index out
  of range in \<open>digestHash[2:4]\<close>, as \<open>BlobKey\<close> does.\<close>

lemma handleCompleteUpload_relies_on_dispatcher:
  "snd (handleCompleteUpload demo_env (demo_world demo_session []) [] ''library/app'' ''7c9e6679'' ''sha256:ab'')
     = Panic
   \<and> BlobKey ''sha256:ab'' = None"
  by (simp add: handleCompleteUpload_def lookup_session_def demo_world_def demo_session_def
        session_key_def HasPrefix_def slice_def BlobKey_def Let_def)


theorem early_exit_overwrites_session_witness:
  "uploads_kv completed_world (session_key ''7c9e6679'') = Some demo_session
   \<and> \<not> 0 <s BytesReceived demo_session
   \<and> Sscanf_d demo_env [] = 0
   \<and> pending (req_body completed_world) \<noteq> []
   \<and> (IdentifyChunkSize \<le> length (pending (req_body completed_world)) \<or> \<not> broken (req_body completed_world))
   \<and> completed_kv completed_world (completed_key
         (''library/app'' @ ''/'' @ take 16 (sha256Hex (take IdentifyChunkSize (pending (req_body completed_world))))))
       = Some ''uploads/library/app/0f8fad5b/data''
   \<and> ''uploads/library/app/0f8fad5b/data'' \<noteq> []
   \<and> credentials (dep demo_env) = Some (''AKIDEXAMPLE'', ''wJalrXUtnFEMI/K7MDENG+bPxRfiCYEXAMPLEKEY'')
   \<and> backend demo_env (s3_log completed_world) (Head ''uploads/library/app/0f8fad5b/data'') = Response ok_response
   \<and> StatusCode ok_response = 200
   \<and> (\<exists>w'. handleUploadChunk demo_env completed_world [] ''chunked'' ''library/app'' ''7c9e6679''
             = (w', Written 202
                      [(''Location'', ''/v2/'' @ ''library/app'' @ ''/blobs/uploads/'' @ ''7c9e6679''),
                       (''Docker-Upload-UUID'', ''7c9e6679''),
                       (''Range'', ''0-0''),
                       (''Content-Length'', ''0'')])
           \<and> uploads_kv w' (session_key ''7c9e6679'')
               = Some (demo_session\<lparr> TempLocation := ''uploads/library/app/0f8fad5b'', BytesReceived := 1 \<rparr>)
           \<and> s3_log w' = s3_log completed_world @ [Head ''uploads/library/app/0f8fad5b/data''])"
proof -
  have 1: "uploads_kv completed_world (session_key ''7c9e6679'') = Some demo_session"
    by (simp add: completed_world_def demo_world_def demo_session_def)
  have 2: "\<not> 0 <s BytesReceived demo_session" by (simp add: demo_session_def)
  have 3: "Sscanf_d demo_env [] = 0" by (simp add: demo_env_def)
  have 4: "pending (req_body completed_world) \<noteq> []" by (simp add: completed_world_def demo_world_def)
  have 5: "IdentifyChunkSize \<le> length (pending (req_body completed_world)) \<or> \<not> broken (req_body completed_world)"
    by (simp add: completed_world_def demo_world_def)
  have 6: "completed_kv completed_world (completed_key
         (''library/app'' @ ''/'' @ take 16 (sha256Hex (take IdentifyChunkSize (pending (req_body completed_world))))))
       = Some ''uploads/library/app/0f8fad5b/data''"
    by (simp add: completed_world_def demo_world_def demo_stateKey_def demo_fingerprint_def
          IdentifyChunkSize_def)
  have 7: "''uploads/library/app/0f8fad5b/data'' \<noteq> []" by simp
  have 8: "credentials (dep demo_env) = Some (''AKIDEXAMPLE'', ''wJalrXUtnFEMI/K7MDENG+bPxRfiCYEXAMPLEKEY'')"
    by (simp add: demo_env_def demo_dep_def)
  have 9: "backend demo_env (s3_log completed_world) (Head ''uploads/library/app/0f8fad5b/data'') = Response ok_response"
    by (simp add: demo_env_def)
  have 10: "StatusCode ok_response = 200" by (simp add: ok_response_def)
  from early_exit_overwrites_session [OF 1 2 3 4 5 6 7 8 9 10] obtain w' where
    a: "handleUploadChunk demo_env completed_world [] ''chunked'' ''library/app'' ''7c9e6679''
             = (w', Written 202
                      [(''Location'', ''/v2/'' @ ''library/app'' @ ''/blobs/uploads/'' @ ''7c9e6679''),
                       (''Docker-Upload-UUID'', ''7c9e6679''),
                       (''Range'', ''0-0''),
                       (''Content-Length'', ''0'')])"
    and d: "\<forall>loc. ''uploads/library/app/0f8fad5b/data'' = loc @ ''/data'' \<longrightarrow>
                 uploads_kv w' (session_key ''7c9e6679'')
                   = Some (demo_session\<lparr> TempLocation := loc, BytesReceived := 1 \<rparr>)"
    and l: "s3_log w' = s3_log completed_world @ [Head ''uploads/library/app/0f8fad5b/data'']"
    by (elim exE conjE)
  have split: "''uploads/library/app/0f8fad5b/data'' = ''uploads/library/app/0f8fad5b'' @ ''/data''"
    by simp
  note b = d [rule_format, OF split]
  have c: "\<exists>w'. handleUploadChunk demo_env completed_world [] ''chunked'' ''library/app'' ''7c9e6679''
             = (w', Written 202
                      [(''Location'', ''/v2/'' @ ''library/app'' @ ''/blobs/uploads/'' @ ''7c9e6679''),
                       (''Docker-Upload-UUID'', ''7c9e6679''),
                       (''Range'', ''0-0''),
                       (''Content-Length'', ''0'')])
           \<and> uploads_kv w' (session_key ''7c9e6679'')
               = Some (demo_session\<lparr> TempLocation := ''uploads/library/app/0f8fad5b'', BytesReceived := 1 \<rparr>)
           \<and> s3_log w' = s3_log completed_world @ [Head ''uploads/library/app/0f8fad5b/data'']"
    apply (rule exI [of _ w'])
    apply (rule conjI, rule a)
    apply (rule conjI, rule b)
    apply (rule l)
    done
  show ?thesis
    apply (rule conjI, rule 1)
    apply (rule conjI, rule 2)
    apply (rule conjI, rule 3)
    apply (rule conjI, rule 4)
    apply (rule conjI, rule 5)
    apply (rule conjI, rule 6)
    apply (rule conjI, rule 7)
    apply (rule conjI, rule 8)
    apply (rule conjI, rule 9)
    apply (rule conjI, rule 10)
    apply (rule c)
    done
qed

theorem resume_returns_listed_progress_witness:
  "pending (req_body resume_world) \<noteq> []
   \<and> (IdentifyChunkSize \<le> length (pending (req_body resume_world)) \<or> \<not> broken (req_body resume_world))
   \<and> demo_stateKey
        = ''library/app'' @ ''/'' @ take 16 (sha256Hex (take IdentifyChunkSize (pending (req_body resume_world))))
   \<and> check_completed listing_env
         (resume_world\<lparr>req_body := (req_body resume_world)
             \<lparr>pending := drop IdentifyChunkSize (pending (req_body resume_world))\<rparr>\<rparr>) demo_stateKey
       = (resume_world\<lparr>req_body := \<lparr>pending = [], broken = False\<rparr>,
                       kv_log := [KVLookup (completed_key demo_stateKey)]\<rparr>, None)
   \<and> multipart_kv resume_world (multipart_key demo_stateKey) = Some demo_checkpoint
   \<and> ContentHash demo_checkpoint
        = take 16 (sha256Hex (take IdentifyChunkSize (pending (req_body resume_world))))
   \<and> credentials (dep listing_env) = Some (''AKIDEXAMPLE'', ''wJalrXUtnFEMI/K7MDENG+bPxRfiCYEXAMPLEKEY'')
   \<and> backend listing_env
         (s3_log (resume_world\<lparr>req_body := \<lparr>pending = [], broken = False\<rparr>,
                               kv_log := [KVLookup (completed_key demo_stateKey)]\<rparr>))
         (ListParts (S3Key demo_checkpoint) (S3UploadId demo_checkpoint))
       = Response (ok_response\<lparr>resp_Parts := Some listed_parts\<rparr>)
   \<and> StatusCode (ok_response\<lparr>resp_Parts := Some listed_parts\<rparr>) = 200
   \<and> resp_Parts (ok_response\<lparr>resp_Parts := Some listed_parts\<rparr>) = Some listed_parts
   \<and> 0 <s actualBytes_of listed_parts
   \<and> ResumableMultipartUpload listing_env resume_world ''library/app'' ''uploads/library/app/7c9e6679/data''
       = (resume_world\<lparr>req_body := \<lparr>pending = [], broken = False\<rparr>,
                       kv_log := [KVLookup (completed_key demo_stateKey), KVLookup (multipart_key demo_stateKey)],
                       s3_log := [ListParts ''uploads/library/app/0f8fad5b/data'' ''upload-0'']\<rparr>,
          (Some \<lparr> res_BytesUploaded = 33554432,
                  IsComplete = False,
                  State = Some (demo_checkpoint
                    \<lparr> CompletedParts := [\<lparr>PartNumber = 1, ETag = ''p1''\<rparr>, \<lparr>PartNumber = 2, ETag = ''p2''\<rparr>],
                      BytesUploaded := 33554432,
                      NextPartNumber := 3 \<rparr>),
                  CompletedKey = [] \<rparr>, None))"
proof -
  let ?w1 = "resume_world\<lparr>req_body := \<lparr>pending = [], broken = False\<rparr>,
                          kv_log := [KVLookup (completed_key demo_stateKey)]\<rparr>"
  have 1: "pending (req_body resume_world) \<noteq> []" by (simp add: resume_world_def demo_world_def)
  have 2: "IdentifyChunkSize \<le> length (pending (req_body resume_world)) \<or> \<not> broken (req_body resume_world)"
    by (simp add: resume_world_def demo_world_def)
  have 3: "demo_stateKey
        = ''library/app'' @ ''/'' @ take 16 (sha256Hex (take IdentifyChunkSize (pending (req_body resume_world))))"
    by (simp add: resume_world_def demo_world_def demo_stateKey_def demo_fingerprint_def IdentifyChunkSize_def)
  have "completed_kv (resume_world\<lparr>req_body := (req_body resume_world)
             \<lparr>pending := drop IdentifyChunkSize (pending (req_body resume_world))\<rparr>\<rparr>)
          (completed_key demo_stateKey) = None"
    by (simp add: resume_world_def demo_world_def)
  from check_completed_absent [OF this, of listing_env]
  have 4: "check_completed listing_env
         (resume_world\<lparr>req_body := (req_body resume_world)
             \<lparr>pending := drop IdentifyChunkSize (pending (req_body resume_world))\<rparr>\<rparr>) demo_stateKey
       = (?w1, None)"
    by (simp add: resume_world_def demo_world_def IdentifyChunkSize_def)
  have 5: "multipart_kv resume_world (multipart_key demo_stateKey) = Some demo_checkpoint"
    by (simp add: resume_world_def)
  have 6: "ContentHash demo_checkpoint
        = take 16 (sha256Hex (take IdentifyChunkSize (pending (req_body resume_world))))"
    by (simp add: resume_world_def demo_world_def demo_checkpoint_def demo_fingerprint_def IdentifyChunkSize_def)
  have 7: "credentials (dep listing_env) = Some (''AKIDEXAMPLE'', ''wJalrXUtnFEMI/K7MDENG+bPxRfiCYEXAMPLEKEY'')"
    by (simp add: listing_env_def demo_env_def demo_dep_def)
  have 8: "backend listing_env (s3_log ?w1)
         (ListParts (S3Key demo_checkpoint) (S3UploadId demo_checkpoint))
       = Response (ok_response\<lparr>resp_Parts := Some listed_parts\<rparr>)"
    by (simp add: listing_env_def)
  have 9: "StatusCode (ok_response\<lparr>resp_Parts := Some listed_parts\<rparr>) = 200"
    by (simp add: ok_response_def)
  have 10: "resp_Parts (ok_response\<lparr>resp_Parts := Some listed_parts\<rparr>) = Some listed_parts"
    by simp
  have bytes: "actualBytes_of listed_parts = 33554432"
    by (simp add: actualBytes_of_def listed_parts_def)
  have 11: "0 <s actualBytes_of listed_parts"
    by (simp add: bytes word_sless_alt)
  note c = resume_returns_listed_progress [OF 1 2 3 4 5 6 7 8 9 10 11,
      of "''uploads/library/app/7c9e6679/data''", THEN conjunct1]
  have 12: "ResumableMultipartUpload listing_env resume_world ''library/app'' ''uploads/library/app/7c9e6679/data''
       = (resume_world\<lparr>req_body := \<lparr>pending = [], broken = False\<rparr>,
                       kv_log := [KVLookup (completed_key demo_stateKey), KVLookup (multipart_key demo_stateKey)],
                       s3_log := [ListParts ''uploads/library/app/0f8fad5b/data'' ''upload-0'']\<rparr>,
          (Some \<lparr> res_BytesUploaded = 33554432,
                  IsComplete = False,
                  State = Some (demo_checkpoint
                    \<lparr> CompletedParts := [\<lparr>PartNumber = 1, ETag = ''p1''\<rparr>, \<lparr>PartNumber = 2, ETag = ''p2''\<rparr>],
                      BytesUploaded := 33554432,
                      NextPartNumber := 3 \<rparr>),
                  CompletedKey = [] \<rparr>, None))"
    unfolding c bytes
    by (simp add: listed_parts_def demo_checkpoint_def resume_world_def demo_world_def wrap_int_def)
  show ?thesis
    apply (rule conjI, rule 1)
    apply (rule conjI, rule 2)
    apply (rule conjI, rule 3)
    apply (rule conjI, rule 4)
    apply (rule conjI, rule 5)
    apply (rule conjI, rule 6)
    apply (rule conjI, rule 7)
    apply (rule conjI, rule 8)
    apply (rule conjI, rule 9)
    apply (rule conjI, rule 10)
    apply (rule conjI, rule 11)
    apply (rule 12)
    done
qed

section \<open>The part loop\<close>

lemma resume_probe_fresh:
  assumes "\<forall>cp. multipart_kv w (multipart_key stateKey) = Some cp \<longrightarrow> ContentHash cp \<noteq> h16"
  shows "resume_probe e w stateKey h16 key
           = (w\<lparr>kv_log := kv_log w @ [KVLookup (multipart_key stateKey)]\<rparr>, StartFresh key)"
  using assms by (auto simp: resume_probe_def LoadMultipartState_def split: option.splits)

lemma start_fresh_ok:
  assumes "credentials (dep e) = Some c"
    and "backend e (s3_log w) (InitiateMultipartUpload key) = Response r0"
    and "StatusCode r0 = 200" and "resp_UploadId r0 = Some uploadId"
    and "length identifyData < PartSize"
    and "PartSize - length identifyData \<le> length (pending (req_body w))"
    and "firstPartData = identifyData @ take (PartSize - length identifyData) (pending (req_body w))"
    and "backend e (s3_log w @ [InitiateMultipartUpload key]) (UploadPart key uploadId 1 firstPartData)
           = Response r1"
    and "StatusCode r1 = 200"
  shows "start_fresh e w key identifyData h16
           = (w\<lparr>req_body := (req_body w)\<lparr>pending := drop (PartSize - length identifyData) (pending (req_body w))\<rparr>,
                 s3_log := s3_log w @ [InitiateMultipartUpload key, UploadPart key uploadId 1 firstPartData]\<rparr>,
              Inr (\<lparr> S3UploadId = uploadId, S3Key = key,
                      CompletedParts = [\<lparr>PartNumber = 1, ETag = part_etag r1 firstPartData\<rparr>],
                      NextPartNumber = 2,
                      BytesUploaded = of_nat PartSize,
                      StartedAt = now_rfc3339 (dep e),
                      ContentHash = h16 \<rparr>, uploadId))"
proof -
  have len: "length firstPartData = PartSize"
    using assms(5,6,7) by simp
  have rd: "ReadFull (req_body w) (PartSize - length identifyData)
              = (take (PartSize - length identifyData) (pending (req_body w)), NoError,
                 (req_body w)\<lparr>pending := drop (PartSize - length identifyData) (pending (req_body w))\<rparr>)"
    using assms(6) by (simp add: ReadFull_def)
  have tk: "take PartSize identifyData = identifyData"
    using assms(5) by simp
  show ?thesis
    using assms(1-5,8,9) len
    unfolding start_fresh_def
    by (simp add: Send_def Let_def sign_ok rd tk assms(7) [symmetric])
qed

lemma upload_step_ok:
  assumes "credentials (dep e) = Some c"
    and "PartSize \<le> length (pending (req_body w))"
    and "backend e (s3_log w) (UploadPart key uploadId (NextPartNumber state) (take PartSize (pending (req_body w))))
           = Response r"
    and "StatusCode r = 200"
  shows "upload_step e stateKey key uploadId w state n
           = LoopNext
               (w\<lparr>req_body := (req_body w)\<lparr>pending := drop PartSize (pending (req_body w))\<rparr>,
                  s3_log := s3_log w @ [UploadPart key uploadId (NextPartNumber state)
                                           (take PartSize (pending (req_body w)))]\<rparr>)
               (state\<lparr> CompletedParts :=
                         CompletedParts state
                           @ [\<lparr>PartNumber = NextPartNumber state,
                                ETag = part_etag r (take PartSize (pending (req_body w)))\<rparr>],
                       NextPartNumber := wrap_int (NextPartNumber state + 1),
                       BytesUploaded := BytesUploaded state + of_nat PartSize \<rparr>)"
proof -
  have rd: "ReadFull (req_body w) PartSize
              = (take PartSize (pending (req_body w)), NoError,
                 (req_body w)\<lparr>pending := drop PartSize (pending (req_body w))\<rparr>)"
    using assms(2) by (simp add: ReadFull_def)
  have len: "min (length (pending (req_body w))) PartSize = PartSize"
    using assms(2) by simp
  show ?thesis
    using assms(1,3,4)
    unfolding upload_step_def rd
    by (simp add: Send_def Let_def sign_ok len)
qed

lemma upload_step_send_error:
  assumes "credentials (dep e) = Some c"
    and "pending (req_body w) \<noteq> []"
    and "PartSize \<le> length (pending (req_body w)) \<or> \<not> broken (req_body w)"
    and "backend e (s3_log w) (UploadPart key uploadId (NextPartNumber state) (take PartSize (pending (req_body w))))
           = SendError"
  shows "upload_step e stateKey key uploadId w state n
           = LoopReturn
               (SaveMultipartState
                  (w\<lparr>req_body := (req_body w)\<lparr>pending := drop PartSize (pending (req_body w))\<rparr>,
                     s3_log := s3_log w @ [UploadPart key uploadId (NextPartNumber state)
                                              (take PartSize (pending (req_body w)))]\<rparr>)
                  stateKey state)
               (Some \<lparr> res_BytesUploaded = BytesUploaded state, IsComplete = False,
                       State = Some state, CompletedKey = [] \<rparr>,
                Some (BackendLimitError n))"
proof -
  from ReadFull_identify [OF assms(2,3)] obtain err where
    rd: "ReadFull (req_body w) PartSize
           = (take PartSize (pending (req_body w)), err,
              (req_body w)\<lparr>pending := drop PartSize (pending (req_body w))\<rparr>)"
    and err: "err = NoError \<or> err = ErrUnexpectedEOF" by auto
  show ?thesis
    using assms(1,4) err
    unfolding upload_step_def rd
    by (auto simp: Send_def Let_def sign_ok)
qed


lemma map_offset_upto: "map (\<lambda>i. n + int i) [0..<k] = [n..n + int k - 1]"
proof (induction k)
  case 0
  show ?case by simp
next
  case (Suc k)
  have "[n..n + int (Suc k) - 1] = [n..n + int k - 1] @ [n + int k]"
    using upto_rec2 [of n "n + int k"] by simp
  with Suc show ?case by simp
qed

lemma part_sizes_expected:
  "length data = k * PartSize \<Longrightarrow>
   part_sizes (expected_parts key uploadId n k data) = map (\<lambda>i. (i, PartSize)) [n..n + int k - 1]"
proof (induction k arbitrary: n data)
  case 0
  show ?case by simp
next
  case (Suc k)
  from Suc.prems have "length (drop PartSize data) = k * PartSize" by simp
  from Suc.IH [OF this, of "n + 1"]
  have "part_sizes (expected_parts key uploadId (n + 1) k (drop PartSize data))
          = map (\<lambda>i. (i, PartSize)) [n + 1..n + int k]"
    by (simp add: add.commute add.left_commute)
  moreover have "[n..n + int (Suc k) - 1] = n # [n + 1..n + int k]"
    using upto_rec1 [of n "n + int k"] by simp
  moreover from Suc.prems have "length (take PartSize data) = PartSize" by simp
  ultimately show ?case by simp
qed

lemma part_bodies_expected:
  "length data = k * PartSize \<Longrightarrow> part_bodies (expected_parts key uploadId n k data) = data"
proof (induction k arbitrary: n data)
  case 0
  then show ?case by simp
next
  case (Suc k)
  from Suc.prems have "length (drop PartSize data) = k * PartSize" by simp
  from Suc.IH [OF this] show ?case by simp
qed

lemma expected_parts_all_upload: "list_all is_UploadPart (expected_parts key uploadId n k data)"
  by (induction k arbitrary: n data) simp_all

lemma length_expected_parts: "length (expected_parts key uploadId n k data) = k"
  by (induction k arbitrary: n data) simp_all

lemma upload_loop_stop: "\<not> n < MaxPartsPerRequest \<Longrightarrow> upload_loop e sk key uid w st n = (w, Inr st)"
  by (subst upload_loop.simps) simp

lemma upload_loop_next:
  "n < MaxPartsPerRequest \<Longrightarrow> upload_step e sk key uid w st n = LoopNext w' st' \<Longrightarrow>
   upload_loop e sk key uid w st n = upload_loop e sk key uid w' st' (n + 1)"
  by (subst upload_loop.simps) simp

lemma upload_loop_return:
  "n < MaxPartsPerRequest \<Longrightarrow> upload_step e sk key uid w st n = LoopReturn w' ret \<Longrightarrow>
   upload_loop e sk key uid w st n = (w', Inl ret)"
  by (subst upload_loop.simps) simp

lemma upload_loop_full:
  assumes creds: "credentials (dep e) = Some c"
    and ok: "\<forall>h op. \<exists>r. backend e h op = Response r \<and> StatusCode r = 200"
  shows "length (pending (req_body w)) = k * PartSize \<Longrightarrow> n + int k = MaxPartsPerRequest \<Longrightarrow>
     0 \<le> NextPartNumber st \<Longrightarrow> NextPartNumber st + int k < 2 ^ 63 \<Longrightarrow>
     \<exists>st'. upload_loop e sk key uid w st n
              = (w\<lparr>req_body := (req_body w)\<lparr>pending := []\<rparr>,
                    s3_log := s3_log w @ expected_parts key uid (NextPartNumber st) k (pending (req_body w))\<rparr>,
                 Inr st')
          \<and> NextPartNumber st' = NextPartNumber st + int k
          \<and> BytesUploaded st' = BytesUploaded st + of_nat (k * PartSize)
          \<and> map PartNumber (CompletedParts st')
               = map PartNumber (CompletedParts st) @ map (\<lambda>i. NextPartNumber st + int i) [0..<k]"
proof (induction k arbitrary: w st n)
  case 0
  then have p: "pending (req_body w) = []" and n: "\<not> n < MaxPartsPerRequest" by simp_all
  from p have "(req_body w)\<lparr>pending := []\<rparr> = req_body w" by (cases "req_body w") simp
  then have "w\<lparr>req_body := (req_body w)\<lparr>pending := []\<rparr>, s3_log := s3_log w @ []\<rparr> = w" by simp
  with upload_loop_stop [OF n, of e sk key uid w st] show ?case by simp
next
  case (Suc k)
  let ?data = "pending (req_body w)"
  let ?op = "UploadPart key uid (NextPartNumber st) (take PartSize ?data)"
  from Suc.prems have big: "PartSize \<le> length ?data" and n: "n < MaxPartsPerRequest" by simp_all
  from ok obtain r where r: "backend e (s3_log w) ?op = Response r" and s: "StatusCode r = 200" by blast
  let ?w' = "w\<lparr>req_body := (req_body w)\<lparr>pending := drop PartSize ?data\<rparr>, s3_log := s3_log w @ [?op]\<rparr>"
  let ?st' = "st\<lparr> CompletedParts := CompletedParts st
                       @ [\<lparr>PartNumber = NextPartNumber st, ETag = part_etag r (take PartSize ?data)\<rparr>],
                    NextPartNumber := NextPartNumber st + 1,
                    BytesUploaded := BytesUploaded st + of_nat PartSize \<rparr>"
  have wrap: "wrap_int (NextPartNumber st + 1) = NextPartNumber st + 1"
    using Suc.prems(3,4) by (intro wrap_int_id) simp_all
  have step: "upload_step e sk key uid w st n = LoopNext ?w' ?st'"
    using upload_step_ok [OF creds big r s, of sk n] unfolding wrap .
  have len': "length (pending (req_body ?w')) = k * PartSize" using Suc.prems by simp
  have n': "(n + 1) + int k = MaxPartsPerRequest" using Suc.prems by simp
  have lo': "0 \<le> NextPartNumber ?st'" using Suc.prems(3) by simp
  have hi': "NextPartNumber ?st' + int k < 2 ^ 63" using Suc.prems(4) by simp
  from Suc.IH [OF len' n' lo' hi'] obtain st'' where
    loop: "upload_loop e sk key uid ?w' ?st' (n + 1)
             = (?w'\<lparr>req_body := (req_body ?w')\<lparr>pending := []\<rparr>,
                     s3_log := s3_log ?w' @ expected_parts key uid (NextPartNumber ?st') k (pending (req_body ?w'))\<rparr>,
                Inr st'')"
    and np: "NextPartNumber st'' = NextPartNumber ?st' + int k"
    and bu: "BytesUploaded st'' = BytesUploaded ?st' + of_nat (k * PartSize)"
    and pn: "map PartNumber (CompletedParts st'')
               = map PartNumber (CompletedParts ?st') @ map (\<lambda>i. NextPartNumber ?st' + int i) [0..<k]"
    by blast
  have w_eq: "?w'\<lparr>req_body := (req_body ?w')\<lparr>pending := []\<rparr>,
                  s3_log := s3_log ?w' @ expected_parts key uid (NextPartNumber ?st') k (pending (req_body ?w'))\<rparr>
              = w\<lparr>req_body := (req_body w)\<lparr>pending := []\<rparr>,
                  s3_log := s3_log w @ expected_parts key uid (NextPartNumber st) (Suc k) ?data\<rparr>"
    by simp
  have "upload_loop e sk key uid w st n
          = (w\<lparr>req_body := (req_body w)\<lparr>pending := []\<rparr>,
                s3_log := s3_log w @ expected_parts key uid (NextPartNumber st) (Suc k) ?data\<rparr>, Inr st'')"
    using upload_loop_next [OF n step] loop w_eq by simp
  moreover have "NextPartNumber st'' = NextPartNumber st + int (Suc k)" using np by simp
  moreover have "BytesUploaded st'' = BytesUploaded st + of_nat (Suc k * PartSize)" using bu by simp
  moreover have "map PartNumber (CompletedParts st'')
               = map PartNumber (CompletedParts st) @ map (\<lambda>i. NextPartNumber st + int i) [0..<Suc k]"
  proof -
    have "map (\<lambda>i. NextPartNumber st + int i) [0..<Suc k]
            = NextPartNumber st # map (\<lambda>i. NextPartNumber st + 1 + int i) [0..<k]"
      by (simp add: upt_conv_Cons map_Suc_upt [symmetric] del: upt_Suc)
    with pn show ?thesis by simp
  qed
  ultimately show ?case by blast
qed

lemma Read1_end: "pending r = [] \<Longrightarrow> \<not> broken r \<Longrightarrow> Read1 r = (0, EOF, r)"
  by (simp add: Read1_def)

lemma finish_upload_complete:
  assumes "credentials (dep e) = Some c"
    and "pending (req_body w) = []" and "\<not> broken (req_body w)"
    and "CompletedParts st \<noteq> []" and "sorted (map PartNumber (CompletedParts st))"
    and "backend e (s3_log w) (CompleteMultipartUpload key uid (CompletedParts st)) = Response r"
    and "StatusCode r = 200"
  shows "finish_upload e w sk key uid st
           = (SaveCompletedUpload
                (DeleteMultipartState
                   (w\<lparr>s3_log := s3_log w @ [CompleteMultipartUpload key uid (CompletedParts st)]\<rparr>) sk) sk key,
              (Some \<lparr> res_BytesUploaded = BytesUploaded st, IsComplete = True,
                      State = None, CompletedKey = key \<rparr>, None))"
proof -
  have srt: "sort_key PartNumber (CompletedParts st) = CompletedParts st"
    by (rule sort_key_id_if_sorted [OF assms(5)])
  show ?thesis
    using assms(1,4,6,7)
    unfolding finish_upload_def Read1_end [OF assms(2,3)]
    by (simp add: Let_def srt sign_ok Send_def)
qed


lemma ReadFull_enough:
  "n \<le> length (pending r) \<Longrightarrow> ReadFull r n = (take n (pending r), NoError, r\<lparr>pending := drop n (pending r)\<rparr>)"
  by (simp add: ReadFull_def)

lemma expected_parts_28:
  "expected_parts key uid 1 28 data
     = UploadPart key uid 1 (take PartSize data) # expected_parts key uid 2 27 (drop PartSize data)"
proof -
  have "(28::nat) = Suc 27" by simp
  then show ?thesis by (simp only: expected_parts.simps) simp
qed

text \<open>
  Claim C4. A body of exactly \<open>PartSize * MaxPartsPerRequest\<close> bytes (28 parts of 16 MiB), with
  no completed-content record and no checkpoint of the same content, against an object store
  that answers every request with status 200 and an upload id: one call of the engine sends
  initiate, then exactly the 28 upload-part requests for parts 1 to 28 of 16 MiB each (part 1
  made of the 1 MiB identification buffer and the next 15 MiB, the parts together being the
  body), then complete-multipart with the parts numbered 1 to 28; it deletes the checkpoint,
  writes the completed-content record, leaves nothing of the body unread, and returns a
  complete result of 469762048 bytes with no error.
\<close>

theorem full_budget_payload_completes:
  assumes len: "length (pending (req_body w)) = PartSize * nat MaxPartsPerRequest"
    and clean: "\<not> broken (req_body w)"
    and creds: "credentials (dep e) = Some c"
    and ok: "\<forall>h op. \<exists>r. backend e h op = Response r \<and> StatusCode r = 200 \<and> resp_UploadId r \<noteq> None"
    and sk: "stateKey = repoName @ ''/'' @ take 16 (sha256Hex (take IdentifyChunkSize (pending (req_body w))))"
    and nocompleted: "completed_kv w (completed_key stateKey) = None"
    and nocheckpoint: "\<forall>cp. multipart_kv w (multipart_key stateKey) = Some cp \<longrightarrow>
           ContentHash cp \<noteq> take 16 (sha256Hex (take IdentifyChunkSize (pending (req_body w))))"
  shows "\<exists>w' uploadId parts.
           ResumableMultipartUpload e w repoName key
             = (w', (Some \<lparr> res_BytesUploaded = 469762048, IsComplete = True, State = None,
                            CompletedKey = key \<rparr>, None))
         \<and> s3_log w' = s3_log w @ [InitiateMultipartUpload key]
                          @ expected_parts key uploadId 1 28 (pending (req_body w))
                          @ [CompleteMultipartUpload key uploadId parts]
         \<and> map PartNumber parts = [1..28]
         \<and> part_sizes (expected_parts key uploadId 1 28 (pending (req_body w)))
             = map (\<lambda>i. (i, 16777216)) [1..28]
         \<and> part_bodies (expected_parts key uploadId 1 28 (pending (req_body w))) = pending (req_body w)
         \<and> hd (expected_parts key uploadId 1 28 (pending (req_body w)))
             = UploadPart key uploadId 1
                 (take 1048576 (pending (req_body w)) @ take 15728640 (drop 1048576 (pending (req_body w))))
         \<and> kv_log w' = kv_log w @ [KVLookup (completed_key stateKey), KVLookup (multipart_key stateKey),
                                    KVDelete (multipart_key stateKey), KVInsert (completed_key stateKey)]
         \<and> multipart_kv w' (multipart_key stateKey) = None
         \<and> completed_kv w' (completed_key stateKey) = Some key
         \<and> pending (req_body w') = []"
proof -
  define data where "data = pending (req_body w)"
  define h16 where "h16 = take 16 (sha256Hex (take IdentifyChunkSize data))"
  have dlen: "length data = 28 * PartSize"
    using len by (simp add: data_def MaxPartsPerRequest_def)
  have ics: "IdentifyChunkSize \<le> length data" "IdentifyChunkSize < PartSize"
    using dlen by (simp_all add: IdentifyChunkSize_def PartSize_def)
  \<comment> \<open>identification\<close>
  define w0 where "w0 = w\<lparr>req_body := (req_body w)\<lparr>pending := drop IdentifyChunkSize data\<rparr>\<rparr>"
  have rd: "ReadFull (req_body w) IdentifyChunkSize = (take IdentifyChunkSize data, NoError, req_body w0)"
    using ics(1) by (simp add: ReadFull_enough data_def w0_def)
  \<comment> \<open>no completed record, no matching checkpoint\<close>
  define w1 where "w1 = w0\<lparr>kv_log := kv_log w @ [KVLookup (completed_key stateKey)]\<rparr>"
  have cc: "check_completed e w0 stateKey = (w1, None)"
    using nocompleted check_completed_absent [of w0 stateKey e] by (simp add: w0_def w1_def)
  define w2 where "w2 = w1\<lparr>kv_log := kv_log w @ [KVLookup (completed_key stateKey),
                                                   KVLookup (multipart_key stateKey)]\<rparr>"
  have "\<forall>cp. multipart_kv w1 (multipart_key stateKey) = Some cp \<longrightarrow> ContentHash cp \<noteq> h16"
    using nocheckpoint by (simp add: w1_def w0_def h16_def data_def)
  from resume_probe_fresh [OF this, of e key]
  have rp: "resume_probe e w1 stateKey h16 key = (w2, StartFresh key)"
    by (simp add: w1_def w2_def w0_def)
  \<comment> \<open>initiate and part 1\<close>
  from ok obtain r0 uploadId where r0: "backend e (s3_log w2) (InitiateMultipartUpload key) = Response r0"
      and s0: "StatusCode r0 = 200" and u0: "resp_UploadId r0 = Some uploadId"
    by (metis option.exhaust)
  define first where "first = take PartSize data"
  have pend2: "pending (req_body w2) = drop IdentifyChunkSize data"
    by (simp add: w2_def w1_def w0_def)
  have first_eq: "first = take IdentifyChunkSize data
                    @ take (PartSize - length (take IdentifyChunkSize data)) (pending (req_body w2))"
  proof -
    have "take (IdentifyChunkSize + (PartSize - IdentifyChunkSize)) data
            = take IdentifyChunkSize data @ take (PartSize - IdentifyChunkSize) (drop IdentifyChunkSize data)"
      by (rule take_add)
    with ics show ?thesis by (simp add: first_def pend2 min_absorb2)
  qed
  from ok obtain r1 where r1: "backend e (s3_log w2 @ [InitiateMultipartUpload key])
                                 (UploadPart key uploadId 1 first) = Response r1"
      and s1: "StatusCode r1 = 200" by blast
  define st1 where "st1 = \<lparr> S3UploadId = uploadId, S3Key = key,
                            CompletedParts = [\<lparr>PartNumber = 1, ETag = part_etag r1 first\<rparr>],
                            NextPartNumber = 2, BytesUploaded = of_nat PartSize,
                            StartedAt = now_rfc3339 (dep e), ContentHash = h16 \<rparr>"
  define w3 where "w3 = w2\<lparr>req_body := (req_body w)\<lparr>pending := drop PartSize data\<rparr>,
                           s3_log := s3_log w @ [InitiateMultipartUpload key, UploadPart key uploadId 1 first]\<rparr>"
  have l1: "length (take IdentifyChunkSize data) < PartSize" using ics by simp
  have l2: "PartSize - length (take IdentifyChunkSize data) \<le> length (pending (req_body w2))"
    using dlen ics by (simp add: pend2 min_absorb2)
  have sf: "start_fresh e w2 key (take IdentifyChunkSize data) h16 = (w3, Inr (st1, uploadId))"
  proof -
    have "drop (PartSize - length (take IdentifyChunkSize data)) (pending (req_body w2)) = drop PartSize data"
      using ics by (simp add: pend2 min_absorb2)
    with start_fresh_ok [OF creds r0 s0 u0 l1 l2 first_eq r1 s1, of h16]
    show ?thesis by (simp add: w3_def st1_def w2_def w1_def w0_def)
  qed
  \<comment> \<open>parts 2 to 28\<close>
  have pend3: "pending (req_body w3) = drop PartSize data" by (simp add: w3_def)
  have len3: "length (pending (req_body w3)) = 27 * PartSize" using dlen by (simp add: pend3)
  have ok': "\<forall>h op. \<exists>r. backend e h op = Response r \<and> StatusCode r = 200" using ok by blast
  have n3: "1 + int 27 = MaxPartsPerRequest" by (simp add: MaxPartsPerRequest_def)
  have lo3: "0 \<le> NextPartNumber st1" by (simp add: st1_def)
  have hi3: "NextPartNumber st1 + int 27 < 2 ^ 63" by (simp add: st1_def)
  from upload_loop_full [OF creds ok' len3 n3 lo3 hi3, of stateKey key uploadId]
  obtain st2 where
    loop: "upload_loop e stateKey key uploadId w3 st1 1
             = (w3\<lparr>req_body := (req_body w3)\<lparr>pending := []\<rparr>,
                    s3_log := s3_log w3 @ expected_parts key uploadId (NextPartNumber st1) 27 (pending (req_body w3))\<rparr>,
                Inr st2)"
    and bu: "BytesUploaded st2 = BytesUploaded st1 + of_nat (27 * PartSize)"
    and pn: "map PartNumber (CompletedParts st2)
               = map PartNumber (CompletedParts st1) @ map (\<lambda>i. NextPartNumber st1 + int i) [0..<27]"
    by blast
  define w4 where "w4 = w3\<lparr>req_body := (req_body w)\<lparr>pending := []\<rparr>,
                           s3_log := s3_log w @ [InitiateMultipartUpload key]
                                       @ expected_parts key uploadId 1 28 data\<rparr>"
  have loop': "upload_loop e stateKey key uploadId w3 st1 1 = (w4, Inr st2)"
    unfolding loop by (simp add: w4_def w3_def st1_def expected_parts_28 first_def)
  have pn2: "map PartNumber (CompletedParts st2) = [1..28]"
  proof -
    have "map (\<lambda>i. 2 + int i) [0..<27] = [2..28]"
      using map_offset_upto [of 2 27] by simp
    moreover have "[1..28] = 1 # [2..(28::int)]" using upto_rec1 [of 1 28] by simp
    ultimately show ?thesis using pn by (simp add: st1_def)
  qed
  \<comment> \<open>the tail: end of stream, complete-multipart\<close>
  have p4: "pending (req_body w4) = []" and b4: "\<not> broken (req_body w4)"
    using clean by (simp_all add: w4_def)
  have ne: "CompletedParts st2 \<noteq> []" using pn2 upto_rec1 [of 1 28] by auto
  have srt: "sorted (map PartNumber (CompletedParts st2))" by (simp add: pn2)
  from ok obtain r2 where
    r2: "backend e (s3_log w4) (CompleteMultipartUpload key uploadId (CompletedParts st2)) = Response r2"
    and s2: "StatusCode r2 = 200" by blast
  define w5 where "w5 = SaveCompletedUpload
                (DeleteMultipartState
                   (w4\<lparr>s3_log := s3_log w4 @ [CompleteMultipartUpload key uploadId (CompletedParts st2)]\<rparr>)
                   stateKey) stateKey key"
  have fin: "finish_upload e w4 stateKey key uploadId st2
               = (w5, (Some \<lparr> res_BytesUploaded = BytesUploaded st2, IsComplete = True,
                              State = None, CompletedKey = key \<rparr>, None))"
    unfolding w5_def by (rule finish_upload_complete [OF creds p4 b4 ne srt r2 s2])
  have bytes: "BytesUploaded st2 = 469762048"
    unfolding bu by (simp add: st1_def PartSize_def)
  have run: "run_parts e w3 stateKey key uploadId st1 1
               = (w5, (Some \<lparr> res_BytesUploaded = 469762048, IsComplete = True,
                              State = None, CompletedKey = key \<rparr>, None))"
    by (simp add: run_parts_def loop' fin bytes)
  have result: "ResumableMultipartUpload e w repoName key
               = (w5, (Some \<lparr> res_BytesUploaded = 469762048, IsComplete = True,
                              State = None, CompletedKey = key \<rparr>, None))"
  proof -
    have w0': "w\<lparr>req_body := req_body w0\<rparr> = w0" by (simp add: w0_def)
    have sk': "repoName @ ''/'' @ h16 = stateKey"
      by (simp add: sk data_def h16_def)
    show ?thesis
      unfolding ResumableMultipartUpload_def rd
      by (simp add: Let_def w0' sk' h16_def [symmetric] cc rp sf run del: append.simps)
  qed
  have d28: "length data = 28 * PartSize" by (rule dlen)
  have sizes: "part_sizes (expected_parts key uploadId 1 28 data) = map (\<lambda>i. (i, 16777216)) [1..28]"
    using part_sizes_expected [OF d28, of key uploadId 1] by (simp add: PartSize_def)
  have bodies: "part_bodies (expected_parts key uploadId 1 28 data) = data"
    by (rule part_bodies_expected [OF d28])
  have hd1: "hd (expected_parts key uploadId 1 28 data)
               = UploadPart key uploadId 1 (take 1048576 data @ take 15728640 (drop 1048576 data))"
  proof -
    have "take (1048576 + 15728640) data = take 1048576 data @ take 15728640 (drop 1048576 data)"
      by (rule take_add)
    then show ?thesis by (simp add: expected_parts_28 PartSize_def)
  qed
  have "s3_log w5 = s3_log w @ [InitiateMultipartUpload key] @ expected_parts key uploadId 1 28 data
                      @ [CompleteMultipartUpload key uploadId (CompletedParts st2)]"
    by (simp add: w5_def w4_def SaveCompletedUpload_def DeleteMultipartState_def)
  moreover have "kv_log w5 = kv_log w @ [KVLookup (completed_key stateKey), KVLookup (multipart_key stateKey),
                                    KVDelete (multipart_key stateKey), KVInsert (completed_key stateKey)]"
    by (simp add: w5_def w4_def w3_def w2_def SaveCompletedUpload_def DeleteMultipartState_def)
  moreover have "multipart_kv w5 (multipart_key stateKey) = None"
    by (simp add: w5_def SaveCompletedUpload_def DeleteMultipartState_def)
  moreover have "completed_kv w5 (completed_key stateKey) = Some key"
    by (simp add: w5_def SaveCompletedUpload_def DeleteMultipartState_def)
  moreover have "pending (req_body w5) = []"
    by (simp add: w5_def w4_def SaveCompletedUpload_def DeleteMultipartState_def)
  ultimately show ?thesis
    using result pn2 sizes bodies hd1 unfolding data_def by blast
qed

theorem full_budget_payload_completes_witness:
  "length (pending (req_body full_world)) = PartSize * nat MaxPartsPerRequest
   \<and> \<not> broken (req_body full_world)
   \<and> credentials (dep demo_env) = Some (''AKIDEXAMPLE'', ''wJalrXUtnFEMI/K7MDENG+bPxRfiCYEXAMPLEKEY'')
   \<and> (\<forall>h op. \<exists>r. backend demo_env h op = Response r \<and> StatusCode r = 200 \<and> resp_UploadId r \<noteq> None)
   \<and> completed_kv full_world
         (completed_key (''library/app'' @ ''/''
            @ take 16 (sha256Hex (take IdentifyChunkSize (pending (req_body full_world)))))) = None
   \<and> multipart_kv full_world
         (multipart_key (''library/app'' @ ''/''
            @ take 16 (sha256Hex (take IdentifyChunkSize (pending (req_body full_world)))))) = None
   \<and> (\<exists>w' uploadId parts.
          ResumableMultipartUpload demo_env full_world ''library/app'' ''uploads/library/app/7c9e6679/data''
            = (w', (Some \<lparr> res_BytesUploaded = 469762048, IsComplete = True, State = None,
                           CompletedKey = ''uploads/library/app/7c9e6679/data'' \<rparr>, None))
        \<and> s3_log w' = s3_log full_world @ [InitiateMultipartUpload ''uploads/library/app/7c9e6679/data'']
                         @ expected_parts ''uploads/library/app/7c9e6679/data'' uploadId 1 28
                             (pending (req_body full_world))
                         @ [CompleteMultipartUpload ''uploads/library/app/7c9e6679/data'' uploadId parts]
        \<and> map PartNumber parts = [1..28])"
proof -
  let ?sk = "''library/app'' @ ''/''
               @ take 16 (sha256Hex (take IdentifyChunkSize (pending (req_body full_world))))"
  have 1: "length (pending (req_body full_world)) = PartSize * nat MaxPartsPerRequest"
    by (simp add: full_world_def demo_world_def PartSize_def MaxPartsPerRequest_def)
  have 2: "\<not> broken (req_body full_world)"
    by (simp add: full_world_def demo_world_def)
  have 3: "credentials (dep demo_env) = Some (''AKIDEXAMPLE'', ''wJalrXUtnFEMI/K7MDENG+bPxRfiCYEXAMPLEKEY'')"
    by (simp add: demo_env_def demo_dep_def)
  have 4: "\<forall>h op. \<exists>r. backend demo_env h op = Response r \<and> StatusCode r = 200 \<and> resp_UploadId r \<noteq> None"
    by (simp add: demo_env_def ok_response_def)
  have 5: "?sk = ?sk" by (rule refl)
  have 6: "completed_kv full_world (completed_key ?sk) = None"
    by (simp add: full_world_def demo_world_def)
  have 7: "multipart_kv full_world (multipart_key ?sk) = None"
    by (simp add: full_world_def demo_world_def)
  have 8: "\<forall>cp. multipart_kv full_world (multipart_key ?sk) = Some cp \<longrightarrow>
             ContentHash cp \<noteq> take 16 (sha256Hex (take IdentifyChunkSize (pending (req_body full_world))))"
    unfolding 7 by simp
  from full_budget_payload_completes [OF 1 2 3 4 5 6 8, of "''uploads/library/app/7c9e6679/data''"]
  have c: "\<exists>w' uploadId parts.
          ResumableMultipartUpload demo_env full_world ''library/app'' ''uploads/library/app/7c9e6679/data''
            = (w', (Some \<lparr> res_BytesUploaded = 469762048, IsComplete = True, State = None,
                           CompletedKey = ''uploads/library/app/7c9e6679/data'' \<rparr>, None))
        \<and> s3_log w' = s3_log full_world @ [InitiateMultipartUpload ''uploads/library/app/7c9e6679/data'']
                         @ expected_parts ''uploads/library/app/7c9e6679/data'' uploadId 1 28
                             (pending (req_body full_world))
                         @ [CompleteMultipartUpload ''uploads/library/app/7c9e6679/data'' uploadId parts]
        \<and> map PartNumber parts = [1..28]"
    by (elim exE conjE) (intro exI conjI, assumption+)
  show ?thesis
    apply (rule conjI, rule 1)
    apply (rule conjI, rule 2)
    apply (rule conjI, rule 3)
    apply (rule conjI, rule 4)
    apply (rule conjI, rule 6)
    apply (rule conjI, rule 7)
    apply (rule c)
    done
qed

section \<open>A failed upload-part request in the loop\<close>

lemma upload_step_limit_saved:
  assumes "upload_step e sk key uid w st n = LoopReturn w' (Some res, err)"
  shows "multipart_kv w' (multipart_key sk) = Some st \<and> State res = Some st
           \<and> \<not> IsComplete res \<and> res_BytesUploaded res = BytesUploaded st
           \<and> err = Some (BackendLimitError n)"
  using assms
  by (auto simp: upload_step_def Let_def Send_def SaveMultipartState_def
           split: prod.splits if_splits sum.splits s3_outcome.splits)

lemma engine_error_is_500:
  assumes "uploads_kv w (session_key uploadUUID) = Some session"
    and "\<not> 0 <s BytesReceived session" and "Sscanf_d e contentLength = 0"
    and "ResumableMultipartUpload e (w\<lparr>kv_log := kv_log w @ [KVLookup (session_key uploadUUID)]\<rparr>) name
           (TempLocation session @ ''/data'') = (w', (result, Some err))"
  shows "handleUploadChunk e w contentLength ''chunked'' name uploadUUID
           = (w', Failed \<lparr> Code = ''UNSUPPORTED'', Message = ''Multipart upload failed'',
                          Detail = [], Status = 500 \<rparr>)"
  using assms
  by (simp add: handleUploadChunk_def lookup_session_def Let_def unsupported_def split: option.splits)

lemma engine_backend_limit_at_part_2:
  assumes big: "PartSize < length (pending (req_body w))"
    and rest: "2 * PartSize \<le> length (pending (req_body w)) \<or> \<not> broken (req_body w)"
    and creds: "credentials (dep e) = Some c"
    and sk: "stateKey = repoName @ ''/'' @ take 16 (sha256Hex (take IdentifyChunkSize (pending (req_body w))))"
    and nocompleted: "completed_kv w (completed_key stateKey) = None"
    and nocheckpoint: "\<forall>cp. multipart_kv w (multipart_key stateKey) = Some cp \<longrightarrow>
           ContentHash cp \<noteq> take 16 (sha256Hex (take IdentifyChunkSize (pending (req_body w))))"
    and r0: "backend e (s3_log w) (InitiateMultipartUpload key) = Response r0"
    and s0: "StatusCode r0 = 200" and u0: "resp_UploadId r0 = Some uploadId"
    and r1: "backend e (s3_log w @ [InitiateMultipartUpload key])
               (UploadPart key uploadId 1 (take PartSize (pending (req_body w)))) = Response r1"
    and s1: "StatusCode r1 = 200"
    and r2: "backend e (s3_log w @ [InitiateMultipartUpload key,
                                    UploadPart key uploadId 1 (take PartSize (pending (req_body w)))])
               (UploadPart key uploadId 2 (take PartSize (drop PartSize (pending (req_body w))))) = SendError"
    and st1: "st1 = \<lparr> S3UploadId = uploadId, S3Key = key,
                      CompletedParts = [\<lparr>PartNumber = 1,
                                         ETag = part_etag r1 (take PartSize (pending (req_body w)))\<rparr>],
                      NextPartNumber = 2, BytesUploaded = of_nat PartSize,
                      StartedAt = now_rfc3339 (dep e),
                      ContentHash = take 16 (sha256Hex (take IdentifyChunkSize (pending (req_body w)))) \<rparr>"
  shows "ResumableMultipartUpload e w repoName key
           = (w\<lparr>req_body := (req_body w)\<lparr>pending := drop (2 * PartSize) (pending (req_body w))\<rparr>,
                 kv_log := kv_log w @ [KVLookup (completed_key stateKey), KVLookup (multipart_key stateKey),
                                       KVInsert (multipart_key stateKey)],
                 s3_log := s3_log w @ [InitiateMultipartUpload key,
                             UploadPart key uploadId 1 (take PartSize (pending (req_body w))),
                             UploadPart key uploadId 2 (take PartSize (drop PartSize (pending (req_body w))))],
                 multipart_kv := (multipart_kv w)(multipart_key stateKey \<mapsto> st1)\<rparr>,
              (Some \<lparr> res_BytesUploaded = of_nat PartSize, IsComplete = False,
                      State = Some st1, CompletedKey = [] \<rparr>,
               Some (BackendLimitError 1)))"
proof -
  define data where "data = pending (req_body w)"
  define h16 where "h16 = take 16 (sha256Hex (take IdentifyChunkSize data))"
  have ics: "IdentifyChunkSize \<le> length data" "IdentifyChunkSize < PartSize"
    using big by (simp_all add: data_def IdentifyChunkSize_def PartSize_def)
  define w0 where "w0 = w\<lparr>req_body := (req_body w)\<lparr>pending := drop IdentifyChunkSize data\<rparr>\<rparr>"
  have rd: "ReadFull (req_body w) IdentifyChunkSize = (take IdentifyChunkSize data, NoError, req_body w0)"
    using ics(1) by (simp add: ReadFull_enough data_def w0_def)
  define w1 where "w1 = w0\<lparr>kv_log := kv_log w @ [KVLookup (completed_key stateKey)]\<rparr>"
  have cc: "check_completed e w0 stateKey = (w1, None)"
    using nocompleted check_completed_absent [of w0 stateKey e] by (simp add: w0_def w1_def)
  define w2 where "w2 = w1\<lparr>kv_log := kv_log w @ [KVLookup (completed_key stateKey),
                                                   KVLookup (multipart_key stateKey)]\<rparr>"
  have "\<forall>cp. multipart_kv w1 (multipart_key stateKey) = Some cp \<longrightarrow> ContentHash cp \<noteq> h16"
    using nocheckpoint by (simp add: w1_def w0_def h16_def data_def)
  from resume_probe_fresh [OF this, of e key]
  have rp: "resume_probe e w1 stateKey h16 key = (w2, StartFresh key)"
    by (simp add: w1_def w2_def w0_def)
  define first where "first = take PartSize data"
  have pend2: "pending (req_body w2) = drop IdentifyChunkSize data"
    by (simp add: w2_def w1_def w0_def)
  have first_eq: "first = take IdentifyChunkSize data
                    @ take (PartSize - length (take IdentifyChunkSize data)) (pending (req_body w2))"
  proof -
    have "take (IdentifyChunkSize + (PartSize - IdentifyChunkSize)) data
            = take IdentifyChunkSize data @ take (PartSize - IdentifyChunkSize) (drop IdentifyChunkSize data)"
      by (rule take_add)
    with ics show ?thesis by (simp add: first_def pend2 min_absorb2)
  qed
  define w3 where "w3 = w2\<lparr>req_body := (req_body w)\<lparr>pending := drop PartSize data\<rparr>,
                           s3_log := s3_log w @ [InitiateMultipartUpload key, UploadPart key uploadId 1 first]\<rparr>"
  have l1: "length (take IdentifyChunkSize data) < PartSize" using ics by simp
  have l2: "PartSize - length (take IdentifyChunkSize data) \<le> length (pending (req_body w2))"
    using big ics by (simp add: pend2 min_absorb2 data_def)
  have r0': "backend e (s3_log w2) (InitiateMultipartUpload key) = Response r0"
    using r0 by (simp add: w2_def w1_def w0_def)
  have r1': "backend e (s3_log w2 @ [InitiateMultipartUpload key]) (UploadPart key uploadId 1 first) = Response r1"
    using r1 by (simp add: w2_def w1_def w0_def first_def data_def)
  have st1': "st1 = \<lparr> S3UploadId = uploadId, S3Key = key,
                      CompletedParts = [\<lparr>PartNumber = 1, ETag = part_etag r1 first\<rparr>],
                      NextPartNumber = 2, BytesUploaded = of_nat PartSize,
                      StartedAt = now_rfc3339 (dep e), ContentHash = h16 \<rparr>"
    by (simp add: st1 first_def data_def h16_def)
  have sf: "start_fresh e w2 key (take IdentifyChunkSize data) h16 = (w3, Inr (st1, uploadId))"
  proof -
    have "drop (PartSize - length (take IdentifyChunkSize data)) (pending (req_body w2)) = drop PartSize data"
      using ics by (simp add: pend2 min_absorb2)
    with start_fresh_ok [OF creds r0' s0 u0 l1 l2 first_eq r1' s1, of h16]
    show ?thesis by (simp add: w3_def st1' w2_def w1_def w0_def)
  qed
  \<comment> \<open>the second part fails to send\<close>
  have pend3: "pending (req_body w3) = drop PartSize data" by (simp add: w3_def)
  have ne3: "pending (req_body w3) \<noteq> []" using big by (simp add: pend3 data_def)
  have ok3: "PartSize \<le> length (pending (req_body w3)) \<or> \<not> broken (req_body w3)"
    using rest by (auto simp: w3_def data_def)
  have r2': "backend e (s3_log w3)
               (UploadPart key uploadId (NextPartNumber st1) (take PartSize (pending (req_body w3)))) = SendError"
    using r2 by (simp add: w3_def st1' first_def data_def)
  define w4 where "w4 = SaveMultipartState
                  (w3\<lparr>req_body := (req_body w3)\<lparr>pending := drop PartSize (pending (req_body w3))\<rparr>,
                      s3_log := s3_log w3 @ [UploadPart key uploadId (NextPartNumber st1)
                                               (take PartSize (pending (req_body w3)))]\<rparr>)
                  stateKey st1"
  have step: "upload_step e stateKey key uploadId w3 st1 1
                = LoopReturn w4
                    (Some \<lparr> res_BytesUploaded = BytesUploaded st1, IsComplete = False,
                            State = Some st1, CompletedKey = [] \<rparr>,
                     Some (BackendLimitError 1))"
    unfolding w4_def by (rule upload_step_send_error [OF creds ne3 ok3 r2'])
  have run: "run_parts e w3 stateKey key uploadId st1 1
               = (w4, (Some \<lparr> res_BytesUploaded = BytesUploaded st1, IsComplete = False,
                              State = Some st1, CompletedKey = [] \<rparr>,
                       Some (BackendLimitError 1)))"
    using upload_loop_return [OF _ step] by (simp add: run_parts_def MaxPartsPerRequest_def)
  have w0': "w\<lparr>req_body := req_body w0\<rparr> = w0" by (simp add: w0_def)
  have sk': "repoName @ ''/'' @ h16 = stateKey" by (simp add: sk data_def h16_def)
  have result: "ResumableMultipartUpload e w repoName key
               = (w4, (Some \<lparr> res_BytesUploaded = BytesUploaded st1, IsComplete = False,
                              State = Some st1, CompletedKey = [] \<rparr>,
                       Some (BackendLimitError 1)))"
    unfolding ResumableMultipartUpload_def rd
    by (simp add: Let_def w0' sk' h16_def [symmetric] cc rp sf run del: append.simps)
  have "w4 = w\<lparr>req_body := (req_body w)\<lparr>pending := drop (2 * PartSize) data\<rparr>,
                 kv_log := kv_log w @ [KVLookup (completed_key stateKey), KVLookup (multipart_key stateKey),
                                       KVInsert (multipart_key stateKey)],
                 s3_log := s3_log w @ [InitiateMultipartUpload key,
                             UploadPart key uploadId 1 (take PartSize data),
                             UploadPart key uploadId 2 (take PartSize (drop PartSize data))],
                 multipart_kv := (multipart_kv w)(multipart_key stateKey \<mapsto> st1)\<rparr>"
    by (simp add: w4_def w3_def w2_def w1_def w0_def SaveMultipartState_def st1' first_def
          mult_2 add.commute)
  moreover have "BytesUploaded st1 = of_nat PartSize" by (simp add: st1')
  ultimately show ?thesis using result by (simp add: data_def)
qed

text \<open>
  Claim C1, at a concrete request. A chunked PATCH without \<open>Content-Length\<close> for a session with
  no bytes received carries 16 MiB + 5 bytes; the object store answers initiate and part 1 with
  200 and the request for part 2 cannot be sent. The engine has saved the checkpoint with
  part 1 (\<open>upload_step_limit_saved\<close>, \<open>engine_backend_limit_at_part_2\<close>), but it returns its
  result together with an error, and \<open>handleUploadChunk\<close> answers every error of the engine
  with 500 \<open>UNSUPPORTED\<close>: the client gets no 202 and no \<open>Range\<close>, and the session record is
  left as it was.
\<close>

theorem backend_limit_in_loop_answers_500:
  "handleUploadChunk limited_env limit_world [] ''chunked'' ''library/app'' ''7c9e6679''
     = (limit_world
          \<lparr> req_body := \<lparr>pending = [], broken = False\<rparr>,
            kv_log := [KVLookup ''uploads/7c9e6679'', KVLookup (completed_key limit_stateKey),
                       KVLookup (multipart_key limit_stateKey), KVInsert (multipart_key limit_stateKey)],
            s3_log := [InitiateMultipartUpload ''uploads/library/app/7c9e6679/data'',
                       UploadPart ''uploads/library/app/7c9e6679/data'' ''upload-1'' 1 (replicate 16777216 0),
                       UploadPart ''uploads/library/app/7c9e6679/data'' ''upload-1'' 2 (replicate 5 0)],
            multipart_kv :=
              [multipart_key limit_stateKey \<mapsto>
                 \<lparr> S3UploadId = ''upload-1'', S3Key = ''uploads/library/app/7c9e6679/data'',
                   CompletedParts = [\<lparr>PartNumber = 1, ETag = part_etag ok_response (replicate 16777216 0)\<rparr>],
                   NextPartNumber = 2, BytesUploaded = 16777216,
                   StartedAt = ''2024-01-15T10:30:00Z'',
                   ContentHash = take 16 (sha256Hex (replicate 1048576 0)) \<rparr>] \<rparr>,
        Failed \<lparr> Code = ''UNSUPPORTED'', Message = ''Multipart upload failed'', Detail = [], Status = 500 \<rparr>)"
proof -
  define w0 where "w0 = limit_world\<lparr>kv_log := kv_log limit_world @ [KVLookup (session_key ''7c9e6679'')]\<rparr>"
  define K where "K = ''uploads/library/app/7c9e6679/data''"
  have pend: "pending (req_body w0) = replicate 16777221 0"
    by (simp add: w0_def limit_world_def demo_world_def)
  have tk1: "take IdentifyChunkSize (replicate 16777221 (0::byte)) = replicate 1048576 0"
    by (simp add: IdentifyChunkSize_def)
  have tk2: "take PartSize (replicate 16777221 (0::byte)) = replicate 16777216 0"
    by (simp add: PartSize_def)
  have tk3: "take PartSize (drop PartSize (replicate 16777221 (0::byte))) = replicate 5 0"
    by (simp add: PartSize_def)
  have dr: "drop (2 * PartSize) (replicate 16777221 (0::byte)) = []"
    by (simp add: PartSize_def)
  have 1: "uploads_kv limit_world (session_key ''7c9e6679'') = Some demo_session"
    by (simp add: limit_world_def demo_world_def demo_session_def)
  have 2: "\<not> 0 <s BytesReceived demo_session" by (simp add: demo_session_def)
  have 3: "Sscanf_d limited_env [] = 0" by (simp add: limited_env_def demo_env_def)
  have big: "PartSize < length (pending (req_body w0))" by (simp add: pend PartSize_def)
  have rest: "2 * PartSize \<le> length (pending (req_body w0)) \<or> \<not> broken (req_body w0)"
    by (simp add: w0_def limit_world_def demo_world_def)
  have creds: "credentials (dep limited_env) = Some (''AKIDEXAMPLE'', ''wJalrXUtnFEMI/K7MDENG+bPxRfiCYEXAMPLEKEY'')"
    by (simp add: limited_env_def demo_env_def demo_dep_def)
  have sk: "limit_stateKey
              = ''library/app'' @ ''/'' @ take 16 (sha256Hex (take IdentifyChunkSize (pending (req_body w0))))"
    unfolding limit_stateKey_def pend tk1 by (rule refl)
  have nc: "completed_kv w0 (completed_key limit_stateKey) = None"
    by (simp add: w0_def limit_world_def demo_world_def)
  have np: "\<forall>cp. multipart_kv w0 (multipart_key limit_stateKey) = Some cp \<longrightarrow>
              ContentHash cp \<noteq> take 16 (sha256Hex (take IdentifyChunkSize (pending (req_body w0))))"
    by (simp add: w0_def limit_world_def demo_world_def)
  have r0: "backend limited_env (s3_log w0) (InitiateMultipartUpload K) = Response ok_response"
    by (simp add: limited_env_def demo_env_def)
  have s0: "StatusCode ok_response = 200" and u0: "resp_UploadId ok_response = Some ''upload-1''"
    by (simp_all add: ok_response_def)
  have r1: "backend limited_env (s3_log w0 @ [InitiateMultipartUpload K])
              (UploadPart K ''upload-1'' 1 (take PartSize (pending (req_body w0)))) = Response ok_response"
    by (simp add: limited_env_def demo_env_def)
  have r2: "backend limited_env
              (s3_log w0 @ [InitiateMultipartUpload K,
                            UploadPart K ''upload-1'' 1 (take PartSize (pending (req_body w0)))])
              (UploadPart K ''upload-1'' 2 (take PartSize (drop PartSize (pending (req_body w0))))) = SendError"
    by (simp add: limited_env_def demo_env_def)
  note eng = engine_backend_limit_at_part_2 [OF big rest creds sk nc np r0 s0 u0 r1 s0 r2 refl]
  have key: "TempLocation demo_session @ ''/data'' = K" by (simp add: demo_session_def K_def)
  note h = engine_error_is_500 [OF 1 2 3, of "''library/app''", unfolded key, folded w0_def, OF eng]
  show ?thesis
    unfolding h pend tk1 tk2 tk3 dr
    by (simp add: w0_def K_def limit_world_def demo_world_def session_key_def PartSize_def
          IdentifyChunkSize_def limited_env_def demo_env_def demo_dep_def)
qed

end
